theory Spec2Isabelle
  imports Complex_Main "HOL-Library.Multiset" "HOL-Library.AList"
begin

section \<open>JavaScript values\<close>

text \<open>
  The payloads that travel through the validator, the cache and the dispatcher are JSON-like
  JavaScript values. An object is the list of its own enumerable properties in insertion
  order. Finite numbers are exact rationals; NaN is a value of its own.
\<close>

datatype jsval =
    JUndefined
  | JNull
  | JBool bool
  | JNum rat
  | JNaN
  | JStr string
  | JArr "jsval list"
  | JObj "(string \<times> jsval) list"

text \<open>Truthiness, as \<^verbatim>\<open>if (x)\<close>, \<^verbatim>\<open>!x\<close>, \<^verbatim>\<open>&&\<close> and \<^verbatim>\<open>||\<close> read it.\<close>

fun truthy :: "jsval \<Rightarrow> bool" where
  "truthy JUndefined = False"
| "truthy JNull = False"
| "truthy (JBool b) = b"
| "truthy (JNum n) = (n \<noteq> 0)"
| "truthy JNaN = False"
| "truthy (JStr s) = (s \<noteq> [])"
| "truthy (JArr xs) = True"
| "truthy (JObj fs) = True"

text \<open>\<^verbatim>\<open>a && b\<close> and \<^verbatim>\<open>a || b\<close> return one of their operands, not a boolean.\<close>

definition js_and :: "jsval \<Rightarrow> jsval \<Rightarrow> jsval" where
  "js_and a b = (if truthy a then b else a)"

definition js_or :: "jsval \<Rightarrow> jsval \<Rightarrow> jsval" where
  "js_or a b = (if truthy a then a else b)"

fun typeof :: "jsval \<Rightarrow> string" where
  "typeof JUndefined = ''undefined''"
| "typeof JNull = ''object''"
| "typeof (JBool b) = ''boolean''"
| "typeof (JNum n) = ''number''"
| "typeof JNaN = ''number''"
| "typeof (JStr s) = ''string''"
| "typeof (JArr xs) = ''object''"
| "typeof (JObj fs) = ''object''"

fun isArray :: "jsval \<Rightarrow> bool" where
  "isArray (JArr xs) = True"
| "isArray v = False"

text \<open>Decimal digits of a natural number: the name of an array index as a property key.\<close>

fun show_nat :: "nat \<Rightarrow> string" where
  "show_nat n =
     (if n < 10 then [char_of (48 + n)]
      else show_nat (n div 10) @ [char_of (48 + n mod 10)])"

declare show_nat.simps [simp del]

text \<open>
  The own enumerable properties of a value: what \<^verbatim>\<open>Object.keys\<close> lists and what a spread
  \<^verbatim>\<open>{...v}\<close> copies. An array and a string have their indices; the other primitives,
  \<^verbatim>\<open>null\<close> and \<^verbatim>\<open>undefined\<close> have none.
\<close>

fun own_props :: "jsval \<Rightarrow> (string \<times> jsval) list" where
  "own_props (JObj fs) = fs"
| "own_props (JArr xs) = zip (map show_nat [0..<length xs]) xs"
| "own_props (JStr s) = zip (map show_nat [0..<length s]) (map (\<lambda>c. JStr [c]) s)"
| "own_props v = []"

text \<open>
  Property read \<^verbatim>\<open>v.k\<close>: an own property, the \<^verbatim>\<open>length\<close> of an array or a string, and
  \<^verbatim>\<open>undefined\<close> otherwise. (On \<^verbatim>\<open>null\<close> and \<^verbatim>\<open>undefined\<close> JavaScript throws; every reader
  below first checks that the value is an object. Inherited methods are not payload.)
\<close>

definition get_prop :: "jsval \<Rightarrow> string \<Rightarrow> jsval" where
  "get_prop v k =
     (case map_of (own_props v) k of
        Some x \<Rightarrow> x
      | None \<Rightarrow>
          (if k = ''length'' then
             (case v of
                JArr xs \<Rightarrow> JNum (of_nat (length xs))
              | JStr s \<Rightarrow> JNum (of_nat (length s))
              | _ \<Rightarrow> JUndefined)
           else JUndefined))"

text \<open>
  \<^verbatim>\<open>{...v, k: x}\<close>: the own properties of \<^verbatim>\<open>v\<close> in their order, with \<^verbatim>\<open>k\<close> set to \<^verbatim>\<open>x\<close> (in
  place when \<^verbatim>\<open>v\<close> has the key, appended otherwise).
\<close>

definition spread_with :: "jsval \<Rightarrow> string \<Rightarrow> jsval \<Rightarrow> jsval" where
  "spread_with v k x = JObj (AList.update k x (own_props v))"

text \<open>
  \<^verbatim>\<open>ToNumber\<close> for the relational operators; \<open>None\<close> is NaN. The conversion of strings,
  arrays and objects (number parsing) is the parameter \<open>conv\<close>.
\<close>

fun to_number :: "(jsval \<Rightarrow> rat option) \<Rightarrow> jsval \<Rightarrow> rat option" where
  "to_number conv JUndefined = None"
| "to_number conv JNull = Some 0"
| "to_number conv (JBool b) = Some (if b then 1 else 0)"
| "to_number conv (JNum n) = Some n"
| "to_number conv JNaN = None"
| "to_number conv v = conv v"

text \<open>\<^verbatim>\<open>v > 0\<close>: false when either side is NaN.\<close>

definition js_gt_zero :: "(jsval \<Rightarrow> rat option) \<Rightarrow> jsval \<Rightarrow> bool" where
  "js_gt_zero conv v = (case to_number conv v of Some n \<Rightarrow> 0 < n | None \<Rightarrow> False)"

section \<open>Reports socket service (services/reportsSocketService.js)\<close>

subsection \<open>The validator\<close>

text \<open>
  \<^verbatim>\<open>
  isValidData(data, type) {
    if (!data || typeof data !== "object") { ...; return false }
    switch (type) {
      case "summary":
        return data.totalEarnings !== undefined && data.totalRides !== undefined
      case "earnings":
        return data.chartData && Array.isArray(data.chartData) && data.summary
      case "drivers":
        return data.tableData && Array.isArray(data.tableData)
      case "rides":
        return data.chartData && Array.isArray(data.chartData)
      default:
        return true
    }
  }
  \<close>
  The result is the value of the expression, which the callers read for its truthiness.
\<close>

definition isValidData :: "jsval \<Rightarrow> string \<Rightarrow> jsval" where
  "isValidData data type =
     (if \<not> truthy data \<or> typeof data \<noteq> ''object'' then JBool False
      else if type = ''summary'' then
        JBool (get_prop data ''totalEarnings'' \<noteq> JUndefined \<and>
               get_prop data ''totalRides'' \<noteq> JUndefined)
      else if type = ''earnings'' then
        js_and (js_and (get_prop data ''chartData'') (JBool (isArray (get_prop data ''chartData''))))
               (get_prop data ''summary'')
      else if type = ''drivers'' then
        js_and (get_prop data ''tableData'') (JBool (isArray (get_prop data ''tableData'')))
      else if type = ''rides'' then
        js_and (get_prop data ''chartData'') (JBool (isArray (get_prop data ''chartData'')))
      else JBool True)"

text \<open>
  The rule of the specification's table, in its words: a summary has numeric
  \<open>totalEarnings\<close> and \<open>totalRides\<close> fields; an earnings payload has an array \<open>chartData\<close>
  and a non-null \<open>summary\<close>; a drivers report has an array \<open>tableData\<close>; a rides report has
  an array \<open>chartData\<close>.
\<close>

fun is_numeric :: "jsval \<Rightarrow> bool" where
  "is_numeric (JNum n) = True"
| "is_numeric v = False"

definition spec_valid :: "string \<Rightarrow> jsval \<Rightarrow> bool" where
  "spec_valid feedKind payload =
     (if feedKind = ''summary'' then
        is_numeric (get_prop payload ''totalEarnings'') \<and>
        is_numeric (get_prop payload ''totalRides'')
      else if feedKind = ''earnings'' then
        isArray (get_prop payload ''chartData'') \<and>
        get_prop payload ''summary'' \<noteq> JNull \<and> get_prop payload ''summary'' \<noteq> JUndefined
      else if feedKind = ''drivers'' then isArray (get_prop payload ''tableData'')
      else if feedKind = ''rides'' then isArray (get_prop payload ''chartData'')
      else True)"

subsection \<open>The service: clients, snapshot cache, guard\<close>

datatype target = ToSocket string | ToRoom jsval | ToAll

type_synonym emission = "target \<times> string \<times> jsval"

datatype feed = SummaryFeed | EarningsFeed

text \<open>
  A broadcast cycle whose call to the reports controller has not been answered yet. The
  controller is not part of this code; its answers arrive as events. \<open>cycleQuery\<close> is the
  \<^verbatim>\<open>mockReq.query\<close> of the cycle; \<open>thenEarningsTimer\<close> records that the cycle is awaited by
  \<^verbatim>\<open>triggerReportsUpdate\<close>, which sets its one-second timer once the call has settled.
\<close>

record cycle =
  cycleFeed :: feed
  cycleQuery :: jsval
  thenEarningsTimer :: bool

text \<open>
  The fields of \<^verbatim>\<open>ReportsSocketService\<close>: \<open>connectedClients\<close> (socket id to filters, in
  insertion order; the activity time, read only by the inactivity sweep, is left out),
  \<open>lastDataCache\<close>, \<open>broadcastInProgress\<close>. Beside them: what has been emitted, the cycles in
  flight and the pending timers of \<^verbatim>\<open>triggerReportsUpdate\<close>.
\<close>

record service =
  connectedClients :: "(string \<times> jsval) list"
  lastDataCache :: "string \<rightharpoonup> jsval"
  broadcastInProgress :: bool
  sent :: "emission list"
  inflight :: "cycle list"
  earningsTimers :: nat

definition new_service :: service where
  "new_service =
     \<lparr>connectedClients = [], lastDataCache = Map.empty, broadcastInProgress = False,
      sent = [], inflight = [], earningsTimers = 0\<rparr>"

definition emit :: "target \<Rightarrow> string \<Rightarrow> jsval \<Rightarrow> service \<Rightarrow> service" where
  "emit to event data s = s\<lparr>sent := sent s @ [(to, event, data)]\<rparr>"

text \<open>\<^verbatim>\<open>this.lastDataCache.get(key)\<close> and \<^verbatim>\<open>this.lastDataCache.set(key, data)\<close>\<close>

definition cache_get :: "service \<Rightarrow> string \<Rightarrow> jsval option" where
  "cache_get s key = lastDataCache s key"

definition cache_set :: "string \<Rightarrow> jsval \<Rightarrow> service \<Rightarrow> service" where
  "cache_set key data s = s\<lparr>lastDataCache := (lastDataCache s)(key \<mapsto> data)\<rparr>"

text \<open>
  The \<^verbatim>\<open>mockRes.json\<close> callback of the four request handlers, which differ in the validator
  type, the cache key and the event only:
  \<^verbatim>\<open>
  json: (data) => {
    if (this.isValidData(data, "earnings")) {
      this.lastDataCache.set("earningsReport", data)
      socket.emit("earningsReportData", data)
    } else {
      const cachedData = this.lastDataCache.get("earningsReport")
      if (cachedData) { socket.emit("earningsReportData", cachedData) }
    }
  }
  \<close>
\<close>

definition request_json ::
  "string \<Rightarrow> string \<Rightarrow> string \<Rightarrow> string \<Rightarrow> jsval \<Rightarrow> service \<Rightarrow> service" where
  "request_json type key event socketId data s =
     (if truthy (isValidData data type) then
        emit (ToSocket socketId) event data (cache_set key data s)
      else
        (case cache_get s key of
           Some cachedData \<Rightarrow>
             if truthy cachedData then emit (ToSocket socketId) event cachedData s else s
         | None \<Rightarrow> s))"

definition requestEarningsReport_json :: "string \<Rightarrow> jsval \<Rightarrow> service \<Rightarrow> service" where
  "requestEarningsReport_json = request_json ''earnings'' ''earningsReport'' ''earningsReportData''"

definition requestDriverPerformance_json :: "string \<Rightarrow> jsval \<Rightarrow> service \<Rightarrow> service" where
  "requestDriverPerformance_json =
     request_json ''drivers'' ''driverPerformance'' ''driverPerformanceData''"

definition requestRidesAnalysis_json :: "string \<Rightarrow> jsval \<Rightarrow> service \<Rightarrow> service" where
  "requestRidesAnalysis_json = request_json ''rides'' ''ridesAnalysis'' ''ridesAnalysisData''"

definition requestReportsSummary_json :: "string \<Rightarrow> jsval \<Rightarrow> service \<Rightarrow> service" where
  "requestReportsSummary_json = request_json ''summary'' ''reportsSummary'' ''reportsSummaryData''"

text \<open>
  \<^verbatim>\<open>
  sendCachedDataToClient(socket) {
    const cachedSummary = this.lastDataCache.get("reportsSummary")
    const cachedEarnings = this.lastDataCache.get("earningsReport")
    const cachedDrivers = this.lastDataCache.get("driverPerformance")
    if (cachedSummary && this.isValidData(cachedSummary, "summary")) {
      socket.emit("reportsSummaryData", cachedSummary) }
    if (cachedEarnings && this.isValidData(cachedEarnings, "earnings")) {
      socket.emit("earningsReportData", cachedEarnings) }
    if (cachedDrivers && this.isValidData(cachedDrivers, "drivers")) {
      socket.emit("driverPerformanceData", cachedDrivers) }
  }
  \<close>
\<close>

definition send_if_cached :: "string \<Rightarrow> string \<Rightarrow> string \<Rightarrow> string \<Rightarrow> service \<Rightarrow> service" where
  "send_if_cached key type event socketId s =
     (case cache_get s key of
        Some cached \<Rightarrow>
          if truthy cached \<and> truthy (isValidData cached type)
          then emit (ToSocket socketId) event cached s else s
      | None \<Rightarrow> s)"

definition sendCachedDataToClient :: "string \<Rightarrow> service \<Rightarrow> service" where
  "sendCachedDataToClient socketId s =
     send_if_cached ''driverPerformance'' ''drivers'' ''driverPerformanceData'' socketId
       (send_if_cached ''earningsReport'' ''earnings'' ''earningsReportData'' socketId
         (send_if_cached ''reportsSummary'' ''summary'' ''reportsSummaryData'' socketId s))"

text \<open>
  The connection handler: \<^verbatim>\<open>this.connectedClients.set(socket.id, {socket, lastActivity,
  filters: {}})\<close>, then \<^verbatim>\<open>this.sendCachedDataToClient(socket)\<close>.
\<close>

definition on_connection :: "string \<Rightarrow> service \<Rightarrow> service" where
  "on_connection socketId s =
     sendCachedDataToClient socketId
       (s\<lparr>connectedClients := AList.update socketId (JObj []) (connectedClients s)\<rparr>)"

definition on_disconnect :: "string \<Rightarrow> service \<Rightarrow> service" where
  "on_disconnect socketId s = s\<lparr>connectedClients := AList.delete socketId (connectedClients s)\<rparr>"

text \<open>
  The start of the \<^verbatim>\<open>requestEarningsReport\<close> handler stores the request's parameters as the
  client's filters; for a client that is no longer registered the read of
  \<^verbatim>\<open>this.connectedClients.get(socket.id).filters\<close> throws and the handler's \<^verbatim>\<open>catch\<close> reports it.
\<close>

definition requestEarningsReport :: "string \<Rightarrow> jsval \<Rightarrow> service \<Rightarrow> service" where
  "requestEarningsReport socketId params s =
     (case map_of (connectedClients s) socketId of
        Some filters \<Rightarrow> s\<lparr>connectedClients := AList.update socketId params (connectedClients s)\<rparr>
      | None \<Rightarrow>
          emit (ToSocket socketId) ''reportError''
            (JObj [(''message'', JStr ''Failed to fetch earnings report'')]) s)"

text \<open>
  \<^verbatim>\<open>
  let clientFilters = {};
  for (const clientData of this.connectedClients.values()) {
    if (clientData.filters && Object.keys(clientData.filters).length > 0) {
      clientFilters = clientData.filters; break;
    }
  }
  \<close>
\<close>

fun pick_client_filters :: "(string \<times> jsval) list \<Rightarrow> jsval" where
  "pick_client_filters [] = JObj []"
| "pick_client_filters ((socketId, filters) # clients) =
     (if truthy filters \<and> 0 < length (own_props filters) then filters
      else pick_client_filters clients)"

definition start_cycle :: "feed \<Rightarrow> jsval \<Rightarrow> service \<Rightarrow> service" where
  "start_cycle f query s =
     s\<lparr>broadcastInProgress := True,
       inflight := inflight s @ [\<lparr>cycleFeed = f, cycleQuery = query, thenEarningsTimer = False\<rparr>]\<rparr>"

text \<open>
  \<^verbatim>\<open>
  async broadcastReportsSummary() {
    if (this.connectedClients.size === 0 || this.broadcastInProgress) return
    this.broadcastInProgress = true
    ... clientFilters ...
    const mockReq = {
      query: clientFilters.timeRange ? { timeRange: clientFilters.timeRange } : {}, ... }
    const mockRes = { json: ..., status: () => ({ json: ... }) }
    try { await reportsController.getReportsSummary(mockReq, mockRes) }
    catch (error) { this.broadcastInProgress = false }
  }
  \<close>
  Up to the \<^verbatim>\<open>await\<close>: the guard, the flag, the query; the call is then in flight.
\<close>

definition broadcastReportsSummary :: "service \<Rightarrow> service" where
  "broadcastReportsSummary s =
     (if length (connectedClients s) = 0 \<or> broadcastInProgress s then s
      else
        (let clientFilters = pick_client_filters (connectedClients s);
             query = (if truthy (get_prop clientFilters ''timeRange'')
                      then JObj [(''timeRange'', get_prop clientFilters ''timeRange'')]
                      else JObj [])
         in start_cycle SummaryFeed query s))"

text \<open>
  \<^verbatim>\<open>broadcastEarningsReport\<close> differs in
  \<^verbatim>\<open>query: clientFilters.timeRange ? clientFilters : { timeRange: "day" }\<close>.
\<close>

definition broadcastEarningsReport :: "service \<Rightarrow> service" where
  "broadcastEarningsReport s =
     (if length (connectedClients s) = 0 \<or> broadcastInProgress s then s
      else
        (let clientFilters = pick_client_filters (connectedClients s);
             query = (if truthy (get_prop clientFilters ''timeRange'')
                      then clientFilters
                      else JObj [(''timeRange'', JStr ''day'')])
         in start_cycle EarningsFeed query s))"

text \<open>
  \<^verbatim>\<open>
  json: (data) => {
    if (this.isValidData(data, "summary") && (data.totalEarnings > 0 || data.totalRides > 0)) {
      this.lastDataCache.set("reportsSummary", data)
      this.io.emit("reportsSummaryUpdate", data)
    } else { ... }
    this.broadcastInProgress = false
  }
  \<close>
\<close>

definition broadcastReportsSummary_json ::
  "(jsval \<Rightarrow> rat option) \<Rightarrow> jsval \<Rightarrow> service \<Rightarrow> service" where
  "broadcastReportsSummary_json conv data s =
     (if truthy (isValidData data ''summary'') \<and>
         (js_gt_zero conv (get_prop data ''totalEarnings'') \<or>
          js_gt_zero conv (get_prop data ''totalRides''))
      then emit ToAll ''reportsSummaryUpdate'' data (cache_set ''reportsSummary'' data s)
      else s)
     \<lparr>broadcastInProgress := False\<rparr>"

text \<open>
  \<^verbatim>\<open>
  json: (data) => {
    if (this.isValidData(data, "earnings") && data.hasData) {
      const dataWithTimeRange = { ...data, timeRange: mockReq.query.timeRange || "day" };
      this.lastDataCache.set("earningsReport", dataWithTimeRange)
      this.io.emit("earningsReportUpdate", dataWithTimeRange)
    } else { ... }
    this.broadcastInProgress = false
  }
  \<close>
\<close>

definition broadcastEarningsReport_json ::
  "jsval \<Rightarrow> jsval \<Rightarrow> service \<Rightarrow> service" where
  "broadcastEarningsReport_json query data s =
     (if truthy (isValidData data ''earnings'') \<and> truthy (get_prop data ''hasData'')
      then
        (let dataWithTimeRange =
               spread_with data ''timeRange'' (js_or (get_prop query ''timeRange'') (JStr ''day''))
         in emit ToAll ''earningsReportUpdate'' dataWithTimeRange
              (cache_set ''earningsReport'' dataWithTimeRange s))
      else s)
     \<lparr>broadcastInProgress := False\<rparr>"

text \<open>
  \<^verbatim>\<open>
  async triggerReportsUpdate() {
    if (!this.broadcastInProgress) {
      await this.broadcastReportsSummary()
      setTimeout(async () => { await this.broadcastEarningsReport() }, 1000)
    }
  }
  \<close>
  When the summary broadcast returns at once (no client), the timer is set at once;
  otherwise it is set when the cycle's controller call has settled.
\<close>

definition triggerReportsUpdate :: "service \<Rightarrow> service" where
  "triggerReportsUpdate s =
     (if \<not> broadcastInProgress s then
        (let s' = broadcastReportsSummary s in
         if length (inflight s') = length (inflight s)
         then s'\<lparr>earningsTimers := earningsTimers s' + 1\<rparr>
         else s'\<lparr>inflight :=
                  butlast (inflight s') @ [(last (inflight s'))\<lparr>thenEarningsTimer := True\<rparr>]\<rparr>)
      else s)"

text \<open>
  The answers of the reports controller to the call of a cycle: it calls \<^verbatim>\<open>res.json(data)\<close>,
  or \<^verbatim>\<open>res.status(..).json(..)\<close>, or throws, or returns without answering. Each call is
  answered at most once.
\<close>

datatype reply = Json jsval | StatusJson | Throws | Silent

definition controller_replies ::
  "(jsval \<Rightarrow> rat option) \<Rightarrow> nat \<Rightarrow> reply \<Rightarrow> service \<Rightarrow> service" where
  "controller_replies conv i r s =
     (if i < length (inflight s) then
        (let c = inflight s ! i;
             s1 = s\<lparr>inflight := take i (inflight s) @ drop (Suc i) (inflight s)\<rparr>;
             s2 = (case r of
                     Json data \<Rightarrow>
                       (case cycleFeed c of
                          SummaryFeed \<Rightarrow> broadcastReportsSummary_json conv data s1
                        | EarningsFeed \<Rightarrow> broadcastEarningsReport_json (cycleQuery c) data s1)
                   | StatusJson \<Rightarrow> s1\<lparr>broadcastInProgress := False\<rparr>
                   | Throws \<Rightarrow> s1\<lparr>broadcastInProgress := False\<rparr>
                   | Silent \<Rightarrow> s1)
         in if thenEarningsTimer c then s2\<lparr>earningsTimers := earningsTimers s2 + 1\<rparr> else s2)
      else s)"

text \<open>
  The periodic timers of \<^verbatim>\<open>startPeriodicUpdates\<close>:
  \<^verbatim>\<open>if (this.connectedClients.size > 0 && !this.broadcastInProgress)
       await this.broadcastReportsSummary()\<close>, and the same for the earnings report.
\<close>

definition periodic_summary :: "service \<Rightarrow> service" where
  "periodic_summary s =
     (if 0 < length (connectedClients s) \<and> \<not> broadcastInProgress s
      then broadcastReportsSummary s else s)"

definition periodic_earnings :: "service \<Rightarrow> service" where
  "periodic_earnings s =
     (if 0 < length (connectedClients s) \<and> \<not> broadcastInProgress s
      then broadcastEarningsReport s else s)"

text \<open>The one-second timer of \<^verbatim>\<open>triggerReportsUpdate\<close> fires.\<close>

definition earnings_timer_fires :: "service \<Rightarrow> service" where
  "earnings_timer_fires s =
     (if earningsTimers s = 0 then s
      else broadcastEarningsReport (s\<lparr>earningsTimers := earningsTimers s - 1\<rparr>))"

text \<open>
  What can happen to the service, one event of the event loop at a time. Two things are left
  out, which touch neither the cache nor the guard: the error answer of a request handler
  (\<^verbatim>\<open>res.status(..).json(error)\<close> emits \<^verbatim>\<open>reportError\<close> to the requesting socket only), and the
  inactivity sweep, which removes clients as a disconnect does.
\<close>

datatype request_kind = EarningsReport | DriverPerformance | RidesAnalysis | ReportsSummary

datatype event =
    Connection string
  | Disconnect string
  | RequestEarningsReport string jsval
  | RequestAnswered request_kind string jsval
  | PeriodicSummary
  | PeriodicEarnings
  | TriggerReportsUpdate
  | EarningsTimerFires
  | ControllerReplies nat reply

fun step :: "(jsval \<Rightarrow> rat option) \<Rightarrow> service \<Rightarrow> event \<Rightarrow> service" where
  "step conv s (Connection socketId) = on_connection socketId s"
| "step conv s (Disconnect socketId) = on_disconnect socketId s"
| "step conv s (RequestEarningsReport socketId params) = requestEarningsReport socketId params s"
| "step conv s (RequestAnswered EarningsReport socketId data) =
     requestEarningsReport_json socketId data s"
| "step conv s (RequestAnswered DriverPerformance socketId data) =
     requestDriverPerformance_json socketId data s"
| "step conv s (RequestAnswered RidesAnalysis socketId data) =
     requestRidesAnalysis_json socketId data s"
| "step conv s (RequestAnswered ReportsSummary socketId data) =
     requestReportsSummary_json socketId data s"
| "step conv s PeriodicSummary = periodic_summary s"
| "step conv s PeriodicEarnings = periodic_earnings s"
| "step conv s TriggerReportsUpdate = triggerReportsUpdate s"
| "step conv s EarningsTimerFires = earnings_timer_fires s"
| "step conv s (ControllerReplies i r) = controller_replies conv i r s"

definition run :: "(jsval \<Rightarrow> rat option) \<Rightarrow> event list \<Rightarrow> service" where
  "run conv events = foldl (step conv) new_service events"

text \<open>
  The places that write the snapshot cache, each with its cache key and the validator type
  it checks first: the four request handlers and the two broadcast cycles.
\<close>

definition cache_writers ::
  "(jsval \<Rightarrow> rat option) \<Rightarrow> string \<Rightarrow> jsval \<Rightarrow>
   (string \<times> string \<times> (jsval \<Rightarrow> service \<Rightarrow> service)) list" where
  "cache_writers conv socketId query =
     [(''earningsReport'', ''earnings'', requestEarningsReport_json socketId),
      (''driverPerformance'', ''drivers'', requestDriverPerformance_json socketId),
      (''ridesAnalysis'', ''rides'', requestRidesAnalysis_json socketId),
      (''reportsSummary'', ''summary'', requestReportsSummary_json socketId),
      (''reportsSummary'', ''summary'', broadcastReportsSummary_json conv),
      (''earningsReport'', ''earnings'', broadcastEarningsReport_json query)]"

text \<open>
  The invariant of the guard: at most one cycle is in flight, and the flag is set while
  one is.
\<close>

definition guard_inv :: "service \<Rightarrow> bool" where
  "guard_inv s = (length (inflight s) \<le> 1 \<and> (inflight s \<noteq> [] \<longrightarrow> broadcastInProgress s))"

section \<open>Dispatcher and rooms (server.js)\<close>

text \<open>
  \<^verbatim>\<open>
  broadcast: (event, data, room = null) => {
    const payload = { ...data, timestamp: new Date().toISOString() }
    if (room) { io.to(room).emit(event, payload) }
    else { io.emit(event, payload) }
  }
  \<close>
  \<open>now\<close> is the value of \<^verbatim>\<open>new Date().toISOString()\<close> at the call.
\<close>

definition broadcast :: "string \<Rightarrow> string \<Rightarrow> jsval \<Rightarrow> jsval \<Rightarrow> emission" where
  "broadcast now event data room =
     (let payload = spread_with data ''timestamp'' (JStr now)
      in if truthy room then (ToRoom room, event, payload) else (ToAll, event, payload))"

text \<open>
  What the handlers of one event do towards the store, the controllers and the joining
  socket. A store query or a controller call is a round trip: the handler awaits its
  answer. A handler is run in two parts: what it does at once, up to its \<^verbatim>\<open>await\<close>, and what
  it does when the answer has arrived.
\<close>

datatype action = StoreQuery string | ControllerCall string | Emit string jsval

datatype 'a outcome = Returns 'a | Raises string

type_synonym handler_run = "action list \<times> action list"

text \<open>
  \<^verbatim>\<open>
  async function sendDashboardStats(target) {
    try {
      let dashboardData = null
      const mockRes = { json: (data) => { dashboardData = data; ... }, status: ... }
      await dashboardController.getDashboardStats({}, mockRes)
      if (dashboardData) {
        const statsWithTimestamp = { ...dashboardData, timestamp: new Date().toISOString() }
        ... target.emit("dashboardStats", statsWithTimestamp)
      }
    } catch (error) { console.error(...) }
  }
  \<close>
  \<open>dashboard\<close> is what the dashboard controller hands to the response (or that it throws).
\<close>

definition sendDashboardStats :: "jsval outcome \<Rightarrow> string \<Rightarrow> handler_run" where
  "sendDashboardStats dashboard now =
     ([ControllerCall ''getDashboardStats''],
      (case dashboard of
         Returns dashboardData \<Rightarrow>
           if truthy dashboardData
           then [Emit ''dashboardStats'' (spread_with dashboardData ''timestamp'' (JStr now))]
           else []
       | Raises msg \<Rightarrow> []))"

text \<open>One branch of \<^verbatim>\<open>sendRoomData\<close>: query the collection, then emit the listing.\<close>

definition room_listing ::
  "(string \<Rightarrow> jsval outcome) \<Rightarrow> string \<Rightarrow> string \<Rightarrow> string \<Rightarrow> string \<Rightarrow> string \<Rightarrow>
   handler_run" where
  "room_listing store now room model event message =
     ([StoreQuery model],
      (case store model of
         Returns listing \<Rightarrow>
           [Emit event
              (JObj [(''success'', JBool True), (''data'', listing), (''timestamp'', JStr now),
                     (''message'', JStr message)])]
       | Raises msg \<Rightarrow>
           [Emit ''error''
              (JObj [(''message'', JStr (''Failed to load '' @ room @ '' data'')),
                     (''error'', JStr msg)])]))"

text \<open>
  \<^verbatim>\<open>
  async function sendRoomData(socket, room) {
    try {
      switch (room) {
        case "vehicles":
          const vehicles = await Vehicle.find().sort({ updatedAt: -1 }).populate(...)
          socket.emit("vehiclesUpdate", { success: true, data: vehicles,
            timestamp: new Date().toISOString(), message: "Room-specific vehicle data loaded" })
          break
        case "drivers": ... Driver.find().sort({ lastUpdate: -1 }) ... "driversUpdate"
        case "dashboard": await sendDashboardStats(socket); break
        case "rides": ... Ride.find().sort({ createdAt: -1 }).limit(50) ... "ridesUpdate"
        case "admin-management": ... Admin.find().sort({ updatedAt: -1 }) ... "adminsUpdate"
      }
    } catch (error) {
      socket.emit("error", { message: `Failed to load ${room} data`, error: error.message })
    }
  }
  \<close>
  \<open>store\<close> is the store: what the query on a model returns, or that it throws.
\<close>

definition sendRoomData ::
  "(string \<Rightarrow> jsval outcome) \<Rightarrow> jsval outcome \<Rightarrow> string \<Rightarrow> jsval \<Rightarrow> handler_run" where
  "sendRoomData store dashboard now room =
     (if room = JStr ''vehicles'' then
        room_listing store now ''vehicles'' ''Vehicle'' ''vehiclesUpdate''
          ''Room-specific vehicle data loaded''
      else if room = JStr ''drivers'' then
        room_listing store now ''drivers'' ''Driver'' ''driversUpdate''
          ''Room-specific driver data loaded''
      else if room = JStr ''dashboard'' then sendDashboardStats dashboard now
      else if room = JStr ''rides'' then
        room_listing store now ''rides'' ''Ride'' ''ridesUpdate''
          ''Room-specific rides data loaded''
      else if room = JStr ''admin-management'' then
        room_listing store now ''admin-management'' ''Admin'' ''adminsUpdate''
          ''Room-specific admin data loaded''
      else ([], []))"

text \<open>
  \<^verbatim>\<open>clientInfo.rooms.includes(room)\<close>: primitives are compared by value; an object or array
  that arrives with an event is a new object, identical to none that was stored before.
\<close>

fun rooms_include :: "jsval list \<Rightarrow> jsval \<Rightarrow> bool" where
  "rooms_include rs (JArr xs) = False"
| "rooms_include rs (JObj fs) = False"
| "rooms_include rs room = (room \<in> set rs)"

text \<open>
  The \<^verbatim>\<open>join-room\<close> handler of server.js: after \<^verbatim>\<open>socket.join(room)\<close> the room is added to the
  client's rooms unless it is there (\<open>None\<close>: the socket is not in \<^verbatim>\<open>connectedClients\<close>), then
  \<^verbatim>\<open>sendRoomData(socket, room)\<close> is called and not awaited.
\<close>

definition join_room ::
  "(string \<Rightarrow> jsval outcome) \<Rightarrow> jsval outcome \<Rightarrow> string \<Rightarrow> jsval \<Rightarrow> jsval list option \<Rightarrow>
   jsval list option \<times> handler_run" where
  "join_room store dashboard now room rooms =
     ((case rooms of
         Some rs \<Rightarrow> Some (if rooms_include rs room then rs else rs @ [room])
       | None \<Rightarrow> None),
      sendRoomData store dashboard now room)"

section \<open>The second join-room handler (socket.js)\<close>

text \<open>\<^verbatim>\<open>v >= 0\<close>: false when \<^verbatim>\<open>v\<close> converts to NaN.\<close>

definition js_ge_zero :: "(jsval \<Rightarrow> rat option) \<Rightarrow> jsval \<Rightarrow> bool" where
  "js_ge_zero conv v = (case to_number conv v of Some n \<Rightarrow> 0 \<le> n | None \<Rightarrow> False)"

text \<open>
  \<^verbatim>\<open>
  function validateStatsData(stats) {
    if (!stats || typeof stats !== "object") { return false }
    const hasValidData =
      (stats.todayRides !== undefined && stats.todayRides >= 0) ||
      (stats.totalDrivers !== undefined && stats.totalDrivers >= 0) ||
      (stats.todayIncome !== undefined && stats.todayIncome >= 0)
    return hasValidData
  }
  \<close>
\<close>

definition validateStatsData :: "(jsval \<Rightarrow> rat option) \<Rightarrow> jsval \<Rightarrow> bool" where
  "validateStatsData conv stats =
     (if \<not> truthy stats \<or> typeof stats \<noteq> ''object'' then False
      else
        (get_prop stats ''todayRides'' \<noteq> JUndefined \<and>
           js_ge_zero conv (get_prop stats ''todayRides'')) \<or>
        (get_prop stats ''totalDrivers'' \<noteq> JUndefined \<and>
           js_ge_zero conv (get_prop stats ''totalDrivers'')) \<or>
        (get_prop stats ''todayIncome'' \<noteq> JUndefined \<and>
           js_ge_zero conv (get_prop stats ''todayIncome'')))"

text \<open>
  \<^verbatim>\<open>
  async function getDashboardStats() {
    try {
      let statsData = null
      const mockRes = { json: (data) => { statsData = data; ... }, status: ... }
      if (dashboardController && typeof dashboardController.getDashboardStats === "function") {
        await dashboardController.getDashboardStats({}, mockRes)
        if (validateStatsData(statsData)) {
          return { ...statsData, timestamp: new Date().toISOString() }
        }
      }
      return null
    } catch (error) { return null }
  }
  \<close>
  The value returned once the controller, which is taken to export the function, has
  answered.
\<close>

definition getDashboardStats ::
  "(jsval \<Rightarrow> rat option) \<Rightarrow> jsval outcome \<Rightarrow> string \<Rightarrow> jsval" where
  "getDashboardStats conv dashboard now =
     (case dashboard of
        Returns statsData \<Rightarrow>
          if validateStatsData conv statsData
          then spread_with statsData ''timestamp'' (JStr now) else JNull
      | Raises msg \<Rightarrow> JNull)"

text \<open>
  \<^verbatim>\<open>
  async function sendInitialDashboardData(socket) {
    try {
      const stats = await getDashboardStats()
      if (stats) { socket.emit("dashboardStats", stats) }
    } catch (err) { ... }
  }
  \<close>
\<close>

definition sendInitialDashboardData ::
  "(jsval \<Rightarrow> rat option) \<Rightarrow> jsval outcome \<Rightarrow> string \<Rightarrow> handler_run" where
  "sendInitialDashboardData conv dashboard now =
     ([ControllerCall ''getDashboardStats''],
      (let stats = getDashboardStats conv dashboard now
       in if truthy stats then [Emit ''dashboardStats'' stats] else []))"

text \<open>
  \<^verbatim>\<open>
  async function sendInitialDriverData(socket) {
    try {
      const drivers = await Driver.find().sort({ lastUpdate: -1 })
      socket.emit("driversUpdate", { success: true, data: drivers,
        timestamp: new Date().toISOString() })
    } catch (error) {
      socket.emit("error", { message: "Failed to fetch driver data", error: error.message })
    }
  }
  \<close>
  \<^verbatim>\<open>sendInitialVehicleData\<close> is the same on \<^verbatim>\<open>Vehicle\<close>, with \<^verbatim>\<open>vehiclesUpdate\<close> and
  \<^verbatim>\<open>"Failed to fetch vehicle data"\<close>.
\<close>

definition initial_listing ::
  "(string \<Rightarrow> jsval outcome) \<Rightarrow> string \<Rightarrow> string \<Rightarrow> string \<Rightarrow> string \<Rightarrow> handler_run" where
  "initial_listing store now model event failure =
     ([StoreQuery model],
      (case store model of
         Returns listing \<Rightarrow>
           [Emit event
              (JObj [(''success'', JBool True), (''data'', listing), (''timestamp'', JStr now)])]
       | Raises msg \<Rightarrow>
           [Emit ''error'' (JObj [(''message'', JStr failure), (''error'', JStr msg)])]))"

definition sendInitialDriverData :: "(string \<Rightarrow> jsval outcome) \<Rightarrow> string \<Rightarrow> handler_run" where
  "sendInitialDriverData store now =
     initial_listing store now ''Driver'' ''driversUpdate'' ''Failed to fetch driver data''"

definition sendInitialVehicleData :: "(string \<Rightarrow> jsval outcome) \<Rightarrow> string \<Rightarrow> handler_run" where
  "sendInitialVehicleData store now =
     initial_listing store now ''Vehicle'' ''vehiclesUpdate'' ''Failed to fetch vehicle data''"

text \<open>
  The \<^verbatim>\<open>join-room\<close> handler of socket.js, registered on the same sockets after the one of
  server.js:
  \<^verbatim>\<open>
  socket.on("join-room", (room) => {
    socket.join(room)
    switch (room) {
      case "dashboard": clients.dashboard.add(socket); sendInitialDashboardData(socket); break
      case "admin-management":
        clients.admin.add(socket)
        socket.emit("connected", { message: "Connected to admin management system",
          timestamp: new Date().toISOString() })
        break
      case "rides": clients.rides.add(socket); break
      case "reports": clients.reports.add(socket); break
      case "drivers": clients.drivers.add(socket); sendInitialDriverData(socket); break
      case "vehicles": clients.vehicles.add(socket); sendInitialVehicleData(socket); break
    }
  })
  \<close>
  The sets of \<^verbatim>\<open>clients\<close> are bookkeeping and send nothing.
\<close>

definition socket_join_room ::
  "(jsval \<Rightarrow> rat option) \<Rightarrow> (string \<Rightarrow> jsval outcome) \<Rightarrow> jsval outcome \<Rightarrow> string \<Rightarrow> jsval \<Rightarrow>
   handler_run" where
  "socket_join_room conv store dashboard now room =
     (if room = JStr ''dashboard'' then sendInitialDashboardData conv dashboard now
      else if room = JStr ''admin-management'' then
        ([Emit ''connected''
            (JObj [(''message'', JStr ''Connected to admin management system''),
                   (''timestamp'', JStr now)])],
         [])
      else if room = JStr ''drivers'' then sendInitialDriverData store now
      else if room = JStr ''vehicles'' then sendInitialVehicleData store now
      else ([], []))"

text \<open>
  What one \<^verbatim>\<open>join-room\<close> event meets: the answers of the store and of the dashboard
  controller to each handler, the time stamps each handler reads, the number conversion,
  and which of two pending answers arrives first.
\<close>

record join_env =
  server_store :: "string \<Rightarrow> jsval outcome"
  socket_store :: "string \<Rightarrow> jsval outcome"
  server_dashboard :: "jsval outcome"
  socket_dashboard :: "jsval outcome"
  server_now :: string
  socket_now :: string
  number_of :: "jsval \<Rightarrow> rat option"
  server_first :: bool

text \<open>
  One \<^verbatim>\<open>join-room\<close> event. The listeners run in the order of their registration, each up
  to its first \<^verbatim>\<open>await\<close>; the two continuations run as the answers arrive. The result is
  the client's rooms and the actions in their order.
\<close>

definition on_join_room ::
  "join_env \<Rightarrow> jsval \<Rightarrow> jsval list option \<Rightarrow> jsval list option \<times> action list" where
  "on_join_room env room rooms =
     (let (rooms', a) = join_room (server_store env) (server_dashboard env) (server_now env)
                          room rooms;
          b = socket_join_room (number_of env) (socket_store env) (socket_dashboard env)
                (socket_now env) room
      in (rooms',
          fst a @ fst b @ (if server_first env then snd a @ snd b else snd b @ snd a)))"

section \<open>Change streams (server.js)\<close>

text \<open>
  The change detection of one collection. \<open>changeStream\<close> and \<open>isConnected\<close> are the
  variables of \<^verbatim>\<open>setupModelChangeStream\<close>; \<open>reconnectTimers\<close> holds the delays of its pending
  \<^verbatim>\<open>setTimeout\<close> callbacks; \<open>watcherStreams\<close> are the streams it has created (each carries
  its \<^verbatim>\<open>error\<close> and \<^verbatim>\<open>close\<close> listeners); \<open>directStream\<close> is the stream of
  \<^verbatim>\<open>setupDirectDbChangeDetection\<close>. \<open>openStreams\<close> is the store's side: the subscriptions on
  the collection that are open. Streams are named by numbers, \<open>nextHandle\<close> being the next.
\<close>

record watcher =
  changeStream :: "nat option"
  isConnected :: bool
  reconnectTimers :: "nat list"
  watcherStreams :: "nat list"
  directStream :: "nat option"
  openStreams :: "nat list"
  nextHandle :: nat

definition new_watcher :: watcher where
  "new_watcher =
     \<lparr>changeStream = None, isConnected = False, reconnectTimers = [], watcherStreams = [],
      directStream = None, openStreams = [], nextHandle = 0\<rparr>"

text \<open>\<^verbatim>\<open>stream.close()\<close>, and a successful \<^verbatim>\<open>Model.watch(...)\<close>, which opens a new stream.\<close>

definition close_stream :: "nat \<Rightarrow> watcher \<Rightarrow> watcher" where
  "close_stream h w = w\<lparr>openStreams := removeAll h (openStreams w)\<rparr>"

definition watch_collection :: "watcher \<Rightarrow> nat \<times> watcher" where
  "watch_collection w =
     (nextHandle w,
      w\<lparr>openStreams := openStreams w @ [nextHandle w], nextHandle := Suc (nextHandle w)\<rparr>)"

text \<open>
  \<^verbatim>\<open>setTimeout(() => { if (!isConnected) { setupStream() } }, 5000)\<close>: the scheduling.
\<close>

definition schedule_reconnect :: "watcher \<Rightarrow> watcher" where
  "schedule_reconnect w = w\<lparr>reconnectTimers := reconnectTimers w @ [5000]\<rparr>"

text \<open>
  \<^verbatim>\<open>
  const setupStream = () => {
    try {
      if (changeStream) { try { changeStream.close() } catch (err) { ... } }
      changeStream = Model.watch([], { fullDocument: "updateLookup" })
      changeStream.on("change", ...)
      changeStream.on("error", (error) => { isConnected = false; setTimeout(..., 5000) })
      changeStream.on("close", () => { isConnected = false; setTimeout(..., 5000) })
      isConnected = true
    } catch (error) {
      isConnected = false
      setTimeout(() => { if (!isConnected) { setupStream() } }, 5000)
    }
  }
  \<close>
  \<open>watch_ok\<close> says whether \<^verbatim>\<open>Model.watch\<close> returns a stream or throws.
\<close>

definition setupStream :: "bool \<Rightarrow> watcher \<Rightarrow> watcher" where
  "setupStream watch_ok w =
     (let w1 = (case changeStream w of Some h \<Rightarrow> close_stream h w | None \<Rightarrow> w) in
      if watch_ok then
        (let (h, w2) = watch_collection w1 in
         w2\<lparr>changeStream := Some h, watcherStreams := watcherStreams w2 @ [h],
            isConnected := True\<rparr>)
      else schedule_reconnect (w1\<lparr>isConnected := False\<rparr>))"

text \<open>
  The \<^verbatim>\<open>error\<close> and \<^verbatim>\<open>close\<close> events of a stream. The streams of the watcher run its two
  listeners; the stream of \<^verbatim>\<open>setupDirectDbChangeDetection\<close> has a \<^verbatim>\<open>change\<close> listener only.
  A closed stream is no longer open at the store.
\<close>

definition on_stream_error :: "nat \<Rightarrow> watcher \<Rightarrow> watcher" where
  "on_stream_error h w =
     (if h \<in> set (watcherStreams w) then schedule_reconnect (w\<lparr>isConnected := False\<rparr>) else w)"

definition on_stream_close :: "nat \<Rightarrow> watcher \<Rightarrow> watcher" where
  "on_stream_close h w =
     (if h \<in> set (watcherStreams w)
      then schedule_reconnect ((close_stream h w)\<lparr>isConnected := False\<rparr>)
      else close_stream h w)"

text \<open>The oldest pending timer fires: \<^verbatim>\<open>if (!isConnected) { setupStream() }\<close>.\<close>

definition reconnect_timer_fires :: "bool \<Rightarrow> watcher \<Rightarrow> watcher" where
  "reconnect_timer_fires watch_ok w =
     (case reconnectTimers w of
        [] \<Rightarrow> w
      | delay # rest \<Rightarrow>
          (let w1 = w\<lparr>reconnectTimers := rest\<rparr>
           in if \<not> isConnected w1 then setupStream watch_ok w1 else w1))"

text \<open>
  \<^verbatim>\<open>setupDirectDbChangeDetection\<close>, for one collection:
  \<^verbatim>\<open>const vehicleChangeStream = Vehicle.watch(watchPipeline, changeStreamOptions)\<close> and its
  \<^verbatim>\<open>change\<close> listener. When the connection opens, \<^verbatim>\<open>setupChangeStreams()\<close> runs first, then
  \<^verbatim>\<open>setupDirectDbChangeDetection()\<close>.
\<close>

definition setupDirectDbChangeDetection :: "bool \<Rightarrow> watcher \<Rightarrow> watcher" where
  "setupDirectDbChangeDetection watch_ok w =
     (if watch_ok then (let (h, w1) = watch_collection w in w1\<lparr>directStream := Some h\<rparr>)
      else w)"

definition startup :: "bool \<Rightarrow> bool \<Rightarrow> watcher" where
  "startup model_ok direct_ok =
     setupDirectDbChangeDetection direct_ok (setupStream model_ok new_watcher)"

datatype watch_event = StreamError nat | StreamClose nat | ReconnectTimerFires bool

fun watch_step :: "watcher \<Rightarrow> watch_event \<Rightarrow> watcher" where
  "watch_step w (StreamError h) = on_stream_error h w"
| "watch_step w (StreamClose h) = on_stream_close h w"
| "watch_step w (ReconnectTimerFires watch_ok) = reconnect_timer_fires watch_ok w"

definition watch_run :: "bool \<Rightarrow> bool \<Rightarrow> watch_event list \<Rightarrow> watcher" where
  "watch_run model_ok direct_ok events = foldl watch_step (startup model_ok direct_ok) events"

text \<open>The open subscriptions that the watcher itself created.\<close>

definition watcher_open :: "watcher \<Rightarrow> nat list" where
  "watcher_open w = filter (\<lambda>h. h \<in> set (watcherStreams w)) (openStreams w)"

text \<open>
  The invariant of the change detection: handles are fresh, and an open stream is the one
  held in \<open>changeStream\<close> or the direct one.
\<close>

definition watch_inv :: "watcher \<Rightarrow> bool" where
  "watch_inv w =
     (distinct (openStreams w) \<and>
      list_all (\<lambda>h. h < nextHandle w) (openStreams w) \<and>
      list_all (\<lambda>h. h < nextHandle w) (watcherStreams w) \<and>
      (case directStream w of
         Some d \<Rightarrow> d \<notin> set (watcherStreams w) \<and> d < nextHandle w
       | None \<Rightarrow> True) \<and>
      list_all (\<lambda>h. changeStream w = Some h \<or> directStream w = Some h) (openStreams w))"

section \<open>Driver simulation (socket.js, models/TRdriverModel.js)\<close>

text \<open>
  The fields of a driver document that the simulation reads or writes. The optional trip
  fields are \<open>None\<close> when \<^verbatim>\<open>null\<close> or absent. Numbers are exact rationals.
\<close>

record driver =
  driverId :: string
  driverName :: string
  status :: string
  location :: "(rat \<times> rat) option"
  speed :: rat
  batteryLevel :: rat
  completedTrips :: nat
  isOnline :: bool
  destination :: "string option"
  eta :: "string option"
  tripId :: "string option"
  passenger :: "string option"

text \<open>A string field in a condition: \<^verbatim>\<open>null\<close>, \<^verbatim>\<open>undefined\<close> and the empty string are falsy.\<close>

fun truthy_string :: "string option \<Rightarrow> bool" where
  "truthy_string None = False"
| "truthy_string (Some s) = (s \<noteq> [])"

text \<open>
  \<^verbatim>\<open>Number.parseInt(driver.eta?.replace(/\D/g, "") || "0")\<close>: the decimal value of the digits
  of the ETA text, 0 when there is no ETA or no digit in it.
\<close>

definition is_digit :: "char \<Rightarrow> bool" where
  "is_digit c = (48 \<le> (of_char c :: nat) \<and> (of_char c :: nat) \<le> 57)"

definition digits_value :: "string \<Rightarrow> nat" where
  "digits_value ds = foldl (\<lambda>acc c. acc * 10 + ((of_char c :: nat) - 48)) 0 ds"

definition parse_eta :: "string option \<Rightarrow> nat" where
  "parse_eta e =
     (case e of
        None \<Rightarrow> 0
      | Some text \<Rightarrow>
          (let digits = filter is_digit text
           in if digits = [] then digits_value ''0'' else digits_value digits))"

text \<open>
  What one iteration of the loop meets outside this file: the functions of
  \<^verbatim>\<open>utils/locationSimulator\<close> (a module of its own, taken as given: \<open>Raises\<close> when a call
  throws, \<open>None\<close> when an optional function is not exported, and what an exported one
  returns, which may be \<^verbatim>\<open>null\<close> or \<^verbatim>\<open>undefined\<close>), the values of the calls of
  \<^verbatim>\<open>Math.random()\<close> and \<^verbatim>\<open>Date.now()\<close>, and whether the store rejects the write.
\<close>

record sim_env =
  simulateMovement ::
    "(rat \<times> rat) option \<Rightarrow> string \<Rightarrow> rat \<Rightarrow> ((rat \<times> rat) option \<times> rat) option outcome"
  simulateBatteryDrain :: "rat \<Rightarrow> string \<Rightarrow> rat \<Rightarrow> rat outcome"
  getRandomDestination :: "string option option"
  getRandomPassenger :: "string option option"
  generateETA :: "(rat \<Rightarrow> rat \<Rightarrow> string option) option"
  random_eta :: rat
  random_trip :: rat
  random_distance :: rat
  random_emergency :: rat
  random_resolve :: rat
  date_now :: nat
  write_error :: "string option"

text \<open>The update document passed to \<^verbatim>\<open>Driver.findByIdAndUpdate\<close> (without \<^verbatim>\<open>lastUpdate\<close>).\<close>

record driver_update =
  new_location :: "rat \<times> rat"
  new_speed :: rat
  new_batteryLevel :: rat
  new_eta :: "string option"
  new_status :: string
  new_destination :: "string option"
  new_passenger :: "string option"
  new_tripId :: "string option"
  new_completedTrips :: nat

datatype sim_event =
    EmergencyAlert string driver string
  | DriversUpdate "driver option list"
  | LocationUpdate string "(rat \<times> rat) option" rat "string option"

text \<open>
  \<^verbatim>\<open>
  let location = driver.location || { lat: 24.8607, lng: 67.0011 }
  let speed = driver.speed || 0
  let batteryLevel = driver.batteryLevel || 80
  try {
    const movementResult = locationSimulator.simulateMovement(driver.location, driver.status,
                                                              driver.speed)
    if (movementResult && movementResult.location) {
      location = movementResult.location
      speed = movementResult.speed
    }
    batteryLevel = locationSimulator.simulateBatteryDrain(driver.batteryLevel, driver.status, speed)
  } catch (simError) { ... // Continue with default values }
  \<close>
\<close>

definition simulate_motion :: "sim_env \<Rightarrow> driver \<Rightarrow> (rat \<times> rat) \<times> rat \<times> rat" where
  "simulate_motion env d =
     (let location0 = (case location d of Some l \<Rightarrow> l | None \<Rightarrow> (248607 / 10000, 670011 / 10000));
          speed0 = (if speed d = 0 then 0 else speed d);
          battery0 = (if batteryLevel d = 0 then 80 else batteryLevel d)
      in case simulateMovement env (location d) (status d) (speed d) of
           Raises msg \<Rightarrow> (location0, speed0, battery0)
         | Returns movementResult \<Rightarrow>
             (let (location1, speed1) =
                    (case movementResult of
                       Some (Some l, s) \<Rightarrow> (l, s)
                     | _ \<Rightarrow> (location0, speed0))
              in case simulateBatteryDrain env (batteryLevel d) (status d) speed1 of
                   Raises msg \<Rightarrow> (location1, speed1, battery0)
                 | Returns b \<Rightarrow> (location1, speed1, b)))"

text \<open>
  \<^verbatim>\<open>
  let eta = driver.eta
  if (driver.status === "active" && driver.destination) {
    const currentETA = Number.parseInt(driver.eta?.replace(/\D/g, "") || "0")
    if (currentETA > 1) {
      eta = `${Math.max(1, currentETA - Math.floor(Math.random() * 2))} mins`
    } else {
      // Trip completed - reset driver to idle
      driver.status = "idle"
      driver.destination = null
      driver.passenger = null
      driver.tripId = null
      eta = null
      driver.completedTrips = (driver.completedTrips || 0) + 1
    }
  }
  \<close>
  The in-memory driver is changed in place; the local \<^verbatim>\<open>eta\<close> is returned beside it.
\<close>

definition trip_progress :: "sim_env \<Rightarrow> driver \<Rightarrow> driver \<times> string option" where
  "trip_progress env d =
     (if status d = ''active'' \<and> truthy_string (destination d) then
        (let currentETA = parse_eta (eta d) in
         if 1 < currentETA then
           (d, Some (show_nat (nat (max 1 (int currentETA - \<lfloor>random_eta env * 2\<rfloor>))) @ '' mins''))
         else
           (d\<lparr>status := ''idle'', destination := None, passenger := None, tripId := None,
              completedTrips := completedTrips d + 1\<rparr>,
            None))
      else (d, eta d))"

text \<open>
  \<^verbatim>\<open>
  if (driver.status === "idle" && Math.random() < 0.1) {
    driver.status = "active"
    driver.destination = locationSimulator.getRandomDestination
      ? locationSimulator.getRandomDestination() : "Random Location"
    driver.passenger = locationSimulator.getRandomPassenger
      ? locationSimulator.getRandomPassenger() : "Random Passenger"
    driver.tripId = `TRP${Date.now().toString().slice(-6)}`
    eta = locationSimulator.generateETA
      ? locationSimulator.generateETA(Math.random() * 10 + 2, speed || 40) : "15 mins"
  }
  \<close>
\<close>

definition trip_assignment ::
  "sim_env \<Rightarrow> rat \<Rightarrow> driver \<times> string option \<Rightarrow> driver \<times> string option" where
  "trip_assignment env speed1 de =
     (let (d, e) = de in
      if status d = ''idle'' \<and> random_trip env < 1 / 10 then
        (d\<lparr>status := ''active'',
           destination :=
             (case getRandomDestination env of Some r \<Rightarrow> r | None \<Rightarrow> Some ''Random Location''),
           passenger :=
             (case getRandomPassenger env of Some r \<Rightarrow> r | None \<Rightarrow> Some ''Random Passenger''),
           tripId :=
             Some (''TRP'' @ drop (length (show_nat (date_now env)) - 6) (show_nat (date_now env)))\<rparr>,
         (case generateETA env of
            Some g \<Rightarrow> g (random_distance env * 10 + 2) (if speed1 = 0 then 40 else speed1)
          | None \<Rightarrow> Some ''15 mins''))
      else (d, e))"

text \<open>
  \<^verbatim>\<open>
  if (driver.status === "active" && Math.random() < 0.005) {
    driver.status = "emergency"
    io.emit("emergencyAlert", { driverId: driver._id, driver, message: `Emergency alert from
      ${driver.name} - Immediate assistance required`, timestamp: ..., priority: "high" })
  }
  if (driver.status === "emergency" && Math.random() < 0.2) { driver.status = "active" }
  \<close>
\<close>

definition emergency_injection :: "sim_env \<Rightarrow> driver \<Rightarrow> driver \<times> sim_event list" where
  "emergency_injection env d =
     (if status d = ''active'' \<and> random_emergency env < 5 / 1000 then
        (let d' = d\<lparr>status := ''emergency''\<rparr>
         in (d', [EmergencyAlert (driverId d') d'
                    (''Emergency alert from '' @ driverName d' @ '' - Immediate assistance required'')]))
      else (d, []))"

definition emergency_resolution :: "sim_env \<Rightarrow> driver \<Rightarrow> driver" where
  "emergency_resolution env d =
     (if status d = ''emergency'' \<and> random_resolve env < 2 / 10
      then d\<lparr>status := ''active''\<rparr> else d)"

text \<open>
  The body of the loop up to the write: the update document of this driver and the alerts
  emitted on the way.
  \<^verbatim>\<open>
  { location, speed, batteryLevel, eta, status: driver.status, destination: driver.destination,
    passenger: driver.passenger, tripId: driver.tripId,
    completedTrips: driver.completedTrips || 0, lastUpdate: new Date() }
  \<close>
\<close>

definition simulate_driver :: "sim_env \<Rightarrow> driver \<Rightarrow> driver_update \<times> sim_event list" where
  "simulate_driver env d =
     (let (location1, speed1, battery1) = simulate_motion env d;
          (d2, eta2) = trip_assignment env speed1 (trip_progress env d);
          (d3, alerts) = emergency_injection env d2;
          d4 = emergency_resolution env d3
      in (\<lparr>new_location = location1, new_speed = speed1, new_batteryLevel = battery1,
           new_eta = eta2, new_status = status d4, new_destination = destination d4,
           new_passenger = passenger d4, new_tripId = tripId d4,
           new_completedTrips = completedTrips d4\<rparr>,
          alerts))"

text \<open>The store: the driver documents, in the order \<^verbatim>\<open>find\<close> returns them.\<close>

type_synonym driver_store = "driver list"

definition apply_update :: "driver_update \<Rightarrow> driver \<Rightarrow> driver" where
  "apply_update u doc =
     doc\<lparr>location := Some (new_location u), speed := new_speed u,
         batteryLevel := new_batteryLevel u, eta := new_eta u, status := new_status u,
         destination := new_destination u, passenger := new_passenger u,
         tripId := new_tripId u, completedTrips := new_completedTrips u\<rparr>"

text \<open>
  \<^verbatim>\<open>await Driver.findByIdAndUpdate(driver._id, {...}, { new: true })\<close>: the call throws when the
  store rejects the write; otherwise it gives the updated document, or \<^verbatim>\<open>null\<close> when no
  document has the identifier.
\<close>

definition findByIdAndUpdate ::
  "sim_env \<Rightarrow> string \<Rightarrow> driver_update \<Rightarrow> driver_store \<Rightarrow> (driver_store \<times> driver option) outcome" where
  "findByIdAndUpdate env ident u store =
     (case write_error env of
        Some msg \<Rightarrow> Raises msg
      | None \<Rightarrow>
          (case List.find (\<lambda>doc. driverId doc = ident) store of
             None \<Rightarrow> Returns (store, None)
           | Some doc \<Rightarrow>
               Returns (map (\<lambda>x. if driverId x = ident then apply_update u x else x) store,
                        Some (apply_update u doc))))"

text \<open>
  The loop \<^verbatim>\<open>for (const driver of drivers) { ... updatedDrivers.push(updatedDriver) }\<close>. It
  stands inside the one \<^verbatim>\<open>try\<close> of the tick: a write that throws leaves the loop and the
  rest of the \<^verbatim>\<open>try\<close> block for the \<^verbatim>\<open>catch\<close>, which only logs.
\<close>

datatype loop_result =
    LoopDone driver_store "driver option list" "sim_event list"
  | LoopAborted driver_store "sim_event list"

fun simulate_all ::
  "(string \<Rightarrow> sim_env) \<Rightarrow> driver list \<Rightarrow> driver_store \<Rightarrow> driver option list \<Rightarrow> sim_event list \<Rightarrow>
   loop_result" where
  "simulate_all env [] store updatedDrivers events = LoopDone store updatedDrivers events"
| "simulate_all env (d # drivers) store updatedDrivers events =
     (let (u, alerts) = simulate_driver (env (driverId d)) d in
      case findByIdAndUpdate (env (driverId d)) (driverId d) u store of
        Raises msg \<Rightarrow> LoopAborted store (events @ alerts)
      | Returns (store', updatedDriver) \<Rightarrow>
          simulate_all env drivers store' (updatedDrivers @ [updatedDriver]) (events @ alerts))"

text \<open>
  \<^verbatim>\<open>
  updatedDrivers.forEach((driver) => {
    if (driver.status === "active") { io.emit("locationUpdate", {...}) }
  })
  \<close>
  On a \<^verbatim>\<open>null\<close> entry the read of \<^verbatim>\<open>driver.status\<close> throws and the iteration ends there.
\<close>

fun location_updates :: "driver option list \<Rightarrow> sim_event list" where
  "location_updates [] = []"
| "location_updates (None # ds) = []"
| "location_updates (Some d # ds) =
     (if status d = ''active''
      then [LocationUpdate (driverId d) (location d) (speed d) (eta d)] else [])
     @ location_updates ds"

text \<open>
  One tick of \<^verbatim>\<open>driverSimulationInterval\<close>:
  \<^verbatim>\<open>
  try {
    const drivers = await Driver.find({ isOnline: true })
    const updatedDrivers = []
    for (const driver of drivers) { ... }
    if (updatedDrivers.length > 0) {
      io.emit("driversUpdate", { success: true, data: updatedDrivers, ... })
      updatedDrivers.forEach(...)
    }
  } catch (error) { console.error("Error in driver simulation:", error) }
  \<close>
  The result is the store after the tick and the events emitted during it.
\<close>

definition simulation_tick ::
  "(string \<Rightarrow> sim_env) \<Rightarrow> driver_store \<Rightarrow> driver_store \<times> sim_event list" where
  "simulation_tick env store =
     (case simulate_all env (filter isOnline store) store [] [] of
        LoopAborted store' events \<Rightarrow> (store', events)
      | LoopDone store' updatedDrivers events \<Rightarrow>
          (store',
           if 0 < length updatedDrivers
           then events @ [DriversUpdate updatedDrivers] @ location_updates updatedDrivers
           else events))"



text \<open>A driver and an environment for the concrete evaluations below.\<close>

definition sample_driver :: driver where
  "sample_driver =
     \<lparr>driverId = ''d1'', driverName = ''Asha'', status = ''active'', location = Some (12, 77),
      speed = 30, batteryLevel = 90, completedTrips = 4, isOnline = True,
      destination = Some ''Airport'', eta = Some ''1 mins'', tripId = Some ''TRP000123'',
      passenger = Some ''Ravi''\<rparr>"

definition sample_env :: sim_env where
  "sample_env =
     \<lparr>simulateMovement = (\<lambda>l st sp. Returns (Some (Some (13, 78), 35))),
      simulateBatteryDrain = (\<lambda>b st sp. Returns (b - 1)),
      getRandomDestination = None, getRandomPassenger = None, generateETA = None,
      random_eta = 0, random_trip = 1 / 2, random_distance = 0, random_emergency = 1 / 2,
      random_resolve = 1 / 2, date_now = 0, write_error = None\<rparr>"


definition failing_write :: "string \<Rightarrow> sim_env \<Rightarrow> string \<Rightarrow> sim_env" where
  "failing_write bad e ident =
     (if ident = bad then e\<lparr>write_error := Some ''write failed''\<rparr> else e)"

definition empty_listing :: "string \<Rightarrow> jsval outcome" where
  "empty_listing model = Returns (JArr [])"

text \<open>A join environment in which every listing is empty and no dashboard answer comes.\<close>

definition quiet_join_env :: join_env where
  "quiet_join_env =
     \<lparr>server_store = empty_listing, socket_store = empty_listing,
      server_dashboard = Raises ''down'', socket_dashboard = Raises ''down'',
      server_now = ''t1'', socket_now = ''t2'', number_of = (\<lambda>v. None), server_first = True\<rparr>"

section \<open>Report helpers (utils/reportsHelper.js)\<close>

text \<open>
  JavaScript numbers are modelled as exact rationals: the inputs are finite numbers and
  binary64 rounding is not modelled. None of the properties below depends on rounding:
  they are about which branch is taken, about the order of a sort and about lengths.
\<close>

datatype arith_event = DivisionByZero

text \<open>
  JavaScript's \<^verbatim>\<open>/\<close> never raises; a zero divisor silently gives an infinity or NaN.
  To make "the divisor is zero" observable, the division of the model reports it.
\<close>

definition js_divide :: "rat \<Rightarrow> rat \<Rightarrow> arith_event + rat" where
  "js_divide a b = (if b = 0 then Inl DivisionByZero else Inr (a / b))"

text \<open>\<^verbatim>\<open>Math.round\<close>: the nearest integer, ties towards plus infinity.\<close>

definition math_round :: "rat \<Rightarrow> rat" where
  "math_round x = of_int \<lfloor>x + 1 / 2\<rfloor>"

text \<open>
  \<^verbatim>\<open>
  const calculatePercentageChange = (current, previous) => {
    if (previous === 0) return current === 0 ? 0 : 100
    return Math.round(((current - previous) / previous) * 100 * 10) / 10
  }
  \<close>
\<close>

definition calculatePercentageChange :: "rat \<Rightarrow> rat \<Rightarrow> arith_event + rat" where
  "calculatePercentageChange current previous =
     (if previous = 0 then Inr (if current = 0 then 0 else 100)
      else (case js_divide (current - previous) previous of
              Inl e \<Rightarrow> Inl e
            | Inr q \<Rightarrow> js_divide (math_round (q * 100 * 10)) 10))"

text \<open>
  The rows handed to \<^verbatim>\<open>calculateDriverRankings\<close>: the three numeric fields the score
  reads, and the rest of the row (name, identifier, ...) as one opaque field.
\<close>

record 'a driver_row =
  completionRate :: rat
  totalEarnings :: rat
  totalRides :: rat
  rest :: 'a

record 'a scored_row = "'a driver_row" +
  score :: rat

record 'a ranked_row = "'a scored_row" +
  rank :: nat

text \<open>
  \<^verbatim>\<open>{...driver, score: driver.completionRate * 0.4 + driver.totalEarnings * 0.0001
                        + driver.totalRides * 0.1}\<close>
\<close>

definition driver_score :: "'a driver_row \<Rightarrow> rat" where
  "driver_score d =
     completionRate d * (4 / 10) + totalEarnings d * (1 / 10000) + totalRides d * (1 / 10)"

definition with_score :: "'a driver_row \<Rightarrow> 'a scored_row" where
  "with_score d =
     \<lparr>completionRate = completionRate d, totalEarnings = totalEarnings d,
      totalRides = totalRides d, rest = rest d, score = driver_score d\<rparr>"

text \<open>\<^verbatim>\<open>{...driver, rank: index + 1}\<close>\<close>

definition with_rank :: "'a scored_row \<Rightarrow> nat \<Rightarrow> 'a ranked_row" where
  "with_rank d index =
     \<lparr>completionRate = completionRate d, totalEarnings = totalEarnings d,
      totalRides = totalRides d, rest = rest d, score = score d, rank = index + 1\<rparr>"

text \<open>
  \<^verbatim>\<open>Array.prototype.sort(compare)\<close> is a stable sort (ECMAScript 2019): an element goes
  before another when \<^verbatim>\<open>compare\<close> is negative, and equal elements keep their order. It is
  modelled as a stable insertion sort driven by the comparator.
\<close>

fun insert_by :: "('a \<Rightarrow> 'a \<Rightarrow> rat) \<Rightarrow> 'a \<Rightarrow> 'a list \<Rightarrow> 'a list" where
  "insert_by compare x [] = [x]"
| "insert_by compare x (y # ys) =
     (if compare x y \<le> 0 then x # y # ys else y # insert_by compare x ys)"

definition array_sort :: "('a \<Rightarrow> 'a \<Rightarrow> rat) \<Rightarrow> 'a list \<Rightarrow> 'a list" where
  "array_sort compare xs = foldr (insert_by compare) xs []"

text \<open>\<^verbatim>\<open>xs.map((x, index) => f(x, index))\<close>\<close>

definition map_indexed :: "('a \<Rightarrow> nat \<Rightarrow> 'b) \<Rightarrow> 'a list \<Rightarrow> 'b list" where
  "map_indexed f xs = map (\<lambda>(x, i). f x i) (zip xs [0..<length xs])"

text \<open>
  \<^verbatim>\<open>
  const calculateDriverRankings = (drivers) => {
    return drivers
      .map((driver) => ({ ...driver, score: ... }))
      .sort((a, b) => b.score - a.score)
      .map((driver, index) => ({ ...driver, rank: index + 1 }))
  }
  \<close>
\<close>

definition calculateDriverRankings :: "'a driver_row list \<Rightarrow> 'a ranked_row list" where
  "calculateDriverRankings drivers =
     map_indexed with_rank
       (array_sort (\<lambda>a b. score b - score a) (map with_score drivers))"

text \<open>What a ranked row says about the driver it came from.\<close>

definition row_of :: "'a ranked_row \<Rightarrow> 'a driver_row" where
  "row_of r =
     \<lparr>completionRate = completionRate r, totalEarnings = totalEarnings r,
      totalRides = totalRides r, rest = rest r\<rparr>"

text \<open>Emergency alerts are emitted inside the loop; the two broadcasts after it.\<close>

fun is_alert :: "sim_event \<Rightarrow> bool" where
  "is_alert (EmergencyAlert ident d message) = True"
| "is_alert e = False"

text \<open>
  What the loop has written once it has gone through the drivers \<open>ds\<close> with no write
  failing: each one's update applied to the document with its identifier.
\<close>

definition write_update :: "(string \<Rightarrow> sim_env) \<Rightarrow> driver \<Rightarrow> driver_store \<Rightarrow> driver_store" where
  "write_update env d store =
     map (\<lambda>x. if driverId x = driverId d
              then apply_update (fst (simulate_driver (env (driverId d)) d)) x else x) store"

definition persisted :: "(string \<Rightarrow> sim_env) \<Rightarrow> driver list \<Rightarrow> driver_store \<Rightarrow> driver_store" where
  "persisted env ds store = foldl (\<lambda>st d. write_update env d st) store ds"

section \<open>Properties\<close>

subsection \<open>Percentage change\<close>

lemma js_divide_nonzero: "b \<noteq> 0 \<Longrightarrow> js_divide a b = Inr (a / b)"
  by (simp add: js_divide_def)

lemma math_round_of_int: "math_round (of_int n) = of_int n"
proof -
  have "\<lfloor>(of_int n :: rat) + 1 / 2\<rfloor> = n"
    by (rule floor_unique) simp_all
  then show ?thesis by (simp add: math_round_def)
qed

lemma calculatePercentageChange_zero:
  "calculatePercentageChange current 0 = Inr (if current = 0 then 0 else 100)"
  unfolding calculatePercentageChange_def by simp

lemma calculatePercentageChange_nonzero:
  assumes "previous \<noteq> 0"
  shows "calculatePercentageChange current previous =
         Inr (math_round ((current - previous) / previous * 100 * 10) / 10)"
proof -
  have q: "js_divide (current - previous) previous = Inr ((current - previous) / previous)"
    using assms by (rule js_divide_nonzero)
  have t: "js_divide (math_round ((current - previous) / previous * 100 * 10)) 10 =
           Inr (math_round ((current - previous) / previous * 100 * 10) / 10)"
    by (rule js_divide_nonzero) simp
  show ?thesis
    unfolding calculatePercentageChange_def using assms by (simp only: q t if_False sum.case)
qed

text \<open>
  C9. For every pair of numbers, \<open>calculatePercentageChange\<close> returns a value and no
  division in it has a zero divisor; when \<open>previous\<close> is zero the result is 0 if
  \<open>current\<close> is zero and 100 otherwise, and the dividing branch is the one taken exactly
  when \<open>previous\<close> is not zero, where it yields the rounded quotient.
\<close>

theorem calculatePercentageChange_total:
  "(\<exists>r. calculatePercentageChange current previous = Inr r) \<and>
   calculatePercentageChange current 0 = Inr (if current = 0 then 0 else 100) \<and>
   (previous \<noteq> 0 \<longrightarrow>
      calculatePercentageChange current previous =
        Inr (math_round ((current - previous) / previous * 100 * 10) / 10))"
proof (intro conjI impI)
  show "calculatePercentageChange current 0 = Inr (if current = 0 then 0 else 100)"
    by (rule calculatePercentageChange_zero)
next
  assume "previous \<noteq> 0"
  then show "calculatePercentageChange current previous =
        Inr (math_round ((current - previous) / previous * 100 * 10) / 10)"
    by (rule calculatePercentageChange_nonzero)
next
  show "\<exists>r. calculatePercentageChange current previous = Inr r"
  proof (cases "previous = 0")
    case True
    then show ?thesis using calculatePercentageChange_zero [of current] by blast
  next
    case False
    then show ?thesis using calculatePercentageChange_nonzero [of previous current] by blast
  qed
qed

theorem calculatePercentageChange_total_witness:
  "calculatePercentageChange 150 100 = Inr 50 \<and>
   calculatePercentageChange 7 0 = Inr 100 \<and>
   calculatePercentageChange 0 0 = Inr 0"
proof -
  have r: "math_round 500 = 500"
    using math_round_of_int [of 500] by simp
  show ?thesis
    using calculatePercentageChange_total [of 150 100] calculatePercentageChange_total [of 7 0]
      calculatePercentageChange_total [of 0 0]
    by (simp add: r)
qed

subsection \<open>Driver rankings\<close>

lemma insert_by_insort:
  "insert_by (\<lambda>a b. f b - f a) x xs = insort_key (\<lambda>d. - f d) x xs"
  by (induction xs) auto

lemma array_sort_sort_key:
  "array_sort (\<lambda>a b. f b - f a) xs = sort_key (\<lambda>d. - f d) xs"
proof -
  have "insert_by (\<lambda>a b. f b - f a) = insort_key (\<lambda>d. - f d)"
    by (intro ext) (rule insert_by_insort)
  then show ?thesis by (simp add: array_sort_def sort_key_def)
qed

lemma map_map_indexed:
  assumes "\<And>x i. h (f x i) = g x"
  shows "map h (map_indexed f xs) = map g xs"
proof -
  have "map h (map_indexed f xs) = map (\<lambda>p. g (fst p)) (zip xs [0..<length xs])"
    by (simp add: map_indexed_def assms case_prod_beta)
  also have "\<dots> = map g (map fst (zip xs [0..<length xs]))"
    by (simp only: map_map comp_def)
  also have "\<dots> = map g xs"
    by simp
  finally show ?thesis .
qed

lemma map_index_map_indexed:
  assumes "\<And>x i. h (f x i) = k i"
  shows "map h (map_indexed f xs) = map k [0..<length xs]"
proof -
  have "map h (map_indexed f xs) = map (\<lambda>p. k (snd p)) (zip xs [0..<length xs])"
    by (simp add: map_indexed_def assms case_prod_beta)
  also have "\<dots> = map k (map snd (zip xs [0..<length xs]))"
    by (simp only: map_map comp_def)
  also have "\<dots> = map k [0..<length xs]"
    by simp
  finally show ?thesis .
qed

lemma length_map_indexed: "length (map_indexed f xs) = length xs"
  by (simp add: map_indexed_def)

lemma length_array_sort: "length (array_sort (\<lambda>a b. f b - f a) xs) = length xs"
  by (simp add: array_sort_sort_key)

lemma row_of_with_rank: "row_of (with_rank (with_score d) i) = d"
  by (simp add: row_of_def with_rank_def with_score_def)

lemma ranking_scores:
  "map score (calculateDriverRankings ds) =
   map score (sort_key (\<lambda>d. - score d) (map with_score ds))"
  unfolding calculateDriverRankings_def array_sort_sort_key
  by (rule map_map_indexed) (simp add: with_rank_def)

lemma sorted_desc: "sorted_wrt (\<lambda>a b. b \<le> (a::rat)) (map f (sort_key (\<lambda>d. - f d) xs))"
proof -
  have "sorted (map (\<lambda>d. - f d) (sort_key (\<lambda>d. - f d) xs))"
    by (rule sorted_sort_key)
  then show ?thesis
    by (simp add: sorted_wrt_map)
qed

lemma row_rebuild:
  "\<lparr>completionRate = completionRate x, totalEarnings = totalEarnings x,
    totalRides = totalRides x, rest = rest x\<rparr> = (x :: 'a driver_row)"
  by (cases x) simp

lemma ranking_rows:
  "mset (map row_of (calculateDriverRankings ds)) = mset ds"
proof -
  let ?s = "sort_key (\<lambda>d. - score d) (map with_score ds)"
  have "map row_of (calculateDriverRankings ds) =
        map (\<lambda>d. \<lparr>completionRate = completionRate d, totalEarnings = totalEarnings d,
      totalRides = totalRides d, rest = rest d\<rparr>) ?s"
    unfolding calculateDriverRankings_def array_sort_sort_key
    by (rule map_map_indexed) (simp add: with_rank_def row_of_def)
  then have "mset (map row_of (calculateDriverRankings ds)) =
        image_mset (\<lambda>d. \<lparr>completionRate = completionRate d, totalEarnings = totalEarnings d,
      totalRides = totalRides d, rest = rest d\<rparr>) (mset ?s)"
    by simp
  also have "\<dots> = image_mset (\<lambda>d. \<lparr>completionRate = completionRate d, totalEarnings = totalEarnings d,
      totalRides = totalRides d, rest = rest d\<rparr>) (mset (map with_score ds))"
    by simp
  also have "\<dots> = mset ds"
    by (simp add: multiset.map_comp comp_def with_score_def row_rebuild)
  finally show ?thesis .
qed

lemma ranking_score_of_row:
  "r \<in> set (calculateDriverRankings ds) \<Longrightarrow> score r = driver_score (row_of r)"
proof -
  assume "r \<in> set (calculateDriverRankings ds)"
  then obtain d i where r: "r = with_rank d i" and d: "d \<in> set (array_sort (\<lambda>a b. score b - score a) (map with_score ds))"
    by (auto simp: calculateDriverRankings_def map_indexed_def dest: set_zip_leftD)
  from d have "d \<in> set (map with_score ds)"
    by (simp add: array_sort_sort_key)
  then obtain d0 where "d = with_score d0" by auto
  with r show ?thesis
    by (simp add: with_rank_def with_score_def row_of_def driver_score_def)
qed

lemma ranking_ranks:
  "map rank (calculateDriverRankings ds) = [1..<length ds + 1]"
proof -
  let ?s = "array_sort (\<lambda>a b. score b - score a) (map with_score ds)"
  have "map rank (map_indexed with_rank ?s) = map Suc [0..<length ?s]"
    by (rule map_index_map_indexed) (simp add: with_rank_def)
  then have "map rank (calculateDriverRankings ds) = map Suc [0..<length ds]"
    by (simp add: calculateDriverRankings_def length_array_sort)
  then show ?thesis
    by (simp add: map_Suc_upt)
qed

text \<open>
  C10. For every list of driver rows, \<open>calculateDriverRankings\<close> returns a list of the
  same length that holds exactly the input rows (as a multiset), each with the score
  computed from its own fields, in order of non-increasing score, with the ranks
  1, 2, ..., n in list order.
\<close>

theorem calculateDriverRankings_ranked:
  "length (calculateDriverRankings ds) = length ds \<and>
   mset (map row_of (calculateDriverRankings ds)) = mset ds \<and>
   (\<forall>r \<in> set (calculateDriverRankings ds). score r = driver_score (row_of r)) \<and>
   sorted_wrt (\<lambda>a b. b \<le> a) (map score (calculateDriverRankings ds)) \<and>
   map rank (calculateDriverRankings ds) = [1..<length ds + 1]"
proof (intro conjI ballI)
  show "length (calculateDriverRankings ds) = length ds"
    by (simp add: calculateDriverRankings_def length_map_indexed length_array_sort)
  show "mset (map row_of (calculateDriverRankings ds)) = mset ds"
    by (rule ranking_rows)
  show "sorted_wrt (\<lambda>a b. b \<le> a) (map score (calculateDriverRankings ds))"
    unfolding ranking_scores by (rule sorted_desc)
  show "map rank (calculateDriverRankings ds) = [1..<length ds + 1]"
    by (rule ranking_ranks)
  fix r assume "r \<in> set (calculateDriverRankings ds)"
  then show "score r = driver_score (row_of r)" by (rule ranking_score_of_row)
qed

theorem calculateDriverRankings_ranked_witness:
  "length (calculateDriverRankings
     [\<lparr>completionRate = 90, totalEarnings = 10000, totalRides = 20, rest = ''a''\<rparr>,
      \<lparr>completionRate = 95, totalEarnings = 20000, totalRides = 30, rest = ''b''\<rparr>]) = 2 \<and>
   map rank (calculateDriverRankings
     [\<lparr>completionRate = 90, totalEarnings = 10000, totalRides = 20, rest = ''a''\<rparr>,
      \<lparr>completionRate = 95, totalEarnings = 20000, totalRides = 30, rest = ''b''\<rparr>]) = [1, 2] \<and>
   map rest (calculateDriverRankings
     [\<lparr>completionRate = 90, totalEarnings = 10000, totalRides = 20, rest = ''a''\<rparr>,
      \<lparr>completionRate = 95, totalEarnings = 20000, totalRides = 30, rest = ''b''\<rparr>]) = [''b'', ''a'']"
proof -
  let ?ds = "[\<lparr>completionRate = 90, totalEarnings = 10000, totalRides = 20, rest = ''a''\<rparr>,
      \<lparr>completionRate = 95 :: rat, totalEarnings = 20000, totalRides = 30, rest = ''b''\<rparr>]"
  have r: "map rest (calculateDriverRankings ?ds) = [''b'', ''a'']"
    by (simp add: calculateDriverRankings_def array_sort_def map_indexed_def with_score_def
        with_rank_def driver_score_def upt_rec)
  have u: "[1..<3] = [1, 2::nat]"
    by (simp add: upt_rec)
  show ?thesis
    using calculateDriverRankings_ranked [of ?ds] r u by simp
qed

subsection \<open>The validator\<close>

lemma truthy_js_and: "truthy (js_and a b) = (truthy a \<and> truthy b)"
  by (simp add: js_and_def)

lemma isArray_truthy: "isArray v \<Longrightarrow> truthy v"
  by (cases v) simp_all

lemma is_object_cases:
  "(truthy data \<and> typeof data = ''object'') =
   (case data of JObj fs \<Rightarrow> True | JArr xs \<Rightarrow> True | _ \<Rightarrow> False)"
  by (cases data) simp_all

lemma get_prop_missing:
  "map_of fs k = None \<Longrightarrow> k \<noteq> ''length'' \<Longrightarrow> get_prop (JObj fs) k = JUndefined"
  by (simp add: get_prop_def)

text \<open>
  C2, as stated, fails on the code. A summary whose two fields are present but not numbers
  is accepted; the earnings check returns the \<open>summary\<close> operand itself, not \<open>true\<close>; and an
  earnings payload whose \<open>summary\<close> is non-null but falsy (here 0) is rejected.
\<close>

theorem isValidData_counterexample:
  "isValidData (JObj [(''totalEarnings'', JStr ''n/a''), (''totalRides'', JNull)]) ''summary''
     = JBool True \<and>
   \<not> spec_valid ''summary'' (JObj [(''totalEarnings'', JStr ''n/a''), (''totalRides'', JNull)]) \<and>
   isValidData (JObj [(''chartData'', JArr []), (''summary'', JObj [])]) ''earnings'' \<noteq> JBool True \<and>
   spec_valid ''earnings'' (JObj [(''chartData'', JArr []), (''summary'', JObj [])]) \<and>
   \<not> truthy (isValidData (JObj [(''chartData'', JArr []), (''summary'', JNum 0)]) ''earnings'') \<and>
   spec_valid ''earnings'' (JObj [(''chartData'', JArr []), (''summary'', JNum 0)])"
  by (simp add: isValidData_def spec_valid_def get_prop_def js_and_def)

lemma isValidData_truthy:
  "truthy (isValidData data type) =
     ((case data of JObj fs \<Rightarrow> True | JArr xs \<Rightarrow> True | _ \<Rightarrow> False) \<and>
      (type = ''summary'' \<longrightarrow>
         get_prop data ''totalEarnings'' \<noteq> JUndefined \<and>
         get_prop data ''totalRides'' \<noteq> JUndefined) \<and>
      (type = ''earnings'' \<longrightarrow>
         isArray (get_prop data ''chartData'') \<and> truthy (get_prop data ''summary'')) \<and>
      (type = ''drivers'' \<longrightarrow> isArray (get_prop data ''tableData'')) \<and>
      (type = ''rides'' \<longrightarrow> isArray (get_prop data ''chartData'')))"
  (is "?L = ?R")
proof (cases "truthy data \<and> typeof data = ''object''")
  case False
  then have "isValidData data type = JBool False"
    by (auto simp add: isValidData_def)
  moreover from False have "\<not> (case data of JObj fs \<Rightarrow> True | JArr xs \<Rightarrow> True | _ \<Rightarrow> False)"
    using is_object_cases [of data] by blast
  ultimately show ?thesis by simp
next
  case True
  then have obj: "(case data of JObj fs \<Rightarrow> True | JArr xs \<Rightarrow> True | _ \<Rightarrow> False)"
    using is_object_cases [of data] by blast
  have arr: "\<And>v. (truthy v \<and> isArray v) = isArray v"
    using isArray_truthy by blast
  from True show ?thesis
    unfolding isValidData_def
    by (simp add: obj truthy_js_and arr)
qed

text \<open>
  C2 (amended). For every feed kind and payload, the validator's result is truthy exactly
  when the payload is an object (or array) and: for \<open>summary\<close>, \<open>totalEarnings\<close> and
  \<open>totalRides\<close> are both present, that is not \<open>undefined\<close> (of any type; zero is valid);
  for \<open>earnings\<close>, \<open>chartData\<close> is an array (possibly empty) and \<open>summary\<close> is truthy; for
  \<open>drivers\<close>, \<open>tableData\<close> is an array; for \<open>rides\<close>, \<open>chartData\<close> is an array. So
  \<open>{chartData: [], summary: {}}\<close> is valid for earnings (the result being the summary
  object), and an object missing a required field is rejected.
\<close>

theorem isValidData_rule:
  "truthy (isValidData data type) =
     ((case data of JObj fs \<Rightarrow> True | JArr xs \<Rightarrow> True | _ \<Rightarrow> False) \<and>
      (type = ''summary'' \<longrightarrow>
         get_prop data ''totalEarnings'' \<noteq> JUndefined \<and>
         get_prop data ''totalRides'' \<noteq> JUndefined) \<and>
      (type = ''earnings'' \<longrightarrow>
         isArray (get_prop data ''chartData'') \<and> truthy (get_prop data ''summary'')) \<and>
      (type = ''drivers'' \<longrightarrow> isArray (get_prop data ''tableData'')) \<and>
      (type = ''rides'' \<longrightarrow> isArray (get_prop data ''chartData''))) \<and>
   isValidData (JObj [(''chartData'', JArr []), (''summary'', JObj [])]) ''earnings'' = JObj [] \<and>
   (map_of fs ''totalEarnings'' = None \<or> map_of fs ''totalRides'' = None \<longrightarrow>
      \<not> truthy (isValidData (JObj fs) ''summary'')) \<and>
   (map_of fs ''chartData'' = None \<or> map_of fs ''summary'' = None \<longrightarrow>
      \<not> truthy (isValidData (JObj fs) ''earnings''))"
proof (intro conjI impI)
  show "truthy (isValidData data type) =
     ((case data of JObj fs \<Rightarrow> True | JArr xs \<Rightarrow> True | _ \<Rightarrow> False) \<and>
      (type = ''summary'' \<longrightarrow>
         get_prop data ''totalEarnings'' \<noteq> JUndefined \<and>
         get_prop data ''totalRides'' \<noteq> JUndefined) \<and>
      (type = ''earnings'' \<longrightarrow>
         isArray (get_prop data ''chartData'') \<and> truthy (get_prop data ''summary'')) \<and>
      (type = ''drivers'' \<longrightarrow> isArray (get_prop data ''tableData'')) \<and>
      (type = ''rides'' \<longrightarrow> isArray (get_prop data ''chartData'')))"
    by (rule isValidData_truthy)
next
  show "isValidData (JObj [(''chartData'', JArr []), (''summary'', JObj [])]) ''earnings'' = JObj []"
    by (simp add: isValidData_def get_prop_def js_and_def)
next
  assume "map_of fs ''totalEarnings'' = None \<or> map_of fs ''totalRides'' = None"
  then have "get_prop (JObj fs) ''totalEarnings'' = JUndefined \<or>
             get_prop (JObj fs) ''totalRides'' = JUndefined"
    using get_prop_missing [of fs "''totalEarnings''"] get_prop_missing [of fs "''totalRides''"]
    by auto
  then show "\<not> truthy (isValidData (JObj fs) ''summary'')"
    by (auto simp add: isValidData_truthy)
next
  assume "map_of fs ''chartData'' = None \<or> map_of fs ''summary'' = None"
  then have "get_prop (JObj fs) ''chartData'' = JUndefined \<or>
             get_prop (JObj fs) ''summary'' = JUndefined"
    using get_prop_missing [of fs "''chartData''"] get_prop_missing [of fs "''summary''"]
    by auto
  then show "\<not> truthy (isValidData (JObj fs) ''earnings'')"
    by (auto simp add: isValidData_truthy)
qed

theorem isValidData_rule_witness:
  "truthy (isValidData (JObj [(''totalEarnings'', JNum 0), (''totalRides'', JNum 0)]) ''summary'') \<and>
   \<not> truthy (isValidData (JObj [(''totalEarnings'', JNum 12)]) ''summary'') \<and>
   \<not> truthy (isValidData (JObj [(''summary'', JObj [])]) ''earnings'')"
  using isValidData_rule [of "JObj [(''totalEarnings'', JNum 0), (''totalRides'', JNum 0)]"
      "''summary''" "[(''totalEarnings'', JNum 12)]"]
    isValidData_rule [of JNull "''earnings''" "[(''summary'', JObj [])]"]
  by (simp add: get_prop_def)

subsection \<open>The snapshot cache\<close>

lemma cache_emit [simp]: "lastDataCache (emit t e d s) = lastDataCache s"
  by (simp add: emit_def)

lemma request_json_invalid:
  "\<not> truthy (isValidData I type) \<Longrightarrow>
   lastDataCache (request_json type key event socketId I s) = lastDataCache s"
  by (simp add: request_json_def split: option.split)

lemma request_json_valid:
  "truthy (isValidData V type) \<Longrightarrow>
   cache_get (request_json type key event socketId V s) key = Some V"
  by (simp add: request_json_def cache_get_def cache_set_def)

lemma broadcastReportsSummary_json_invalid:
  "\<not> truthy (isValidData I ''summary'') \<Longrightarrow>
   lastDataCache (broadcastReportsSummary_json conv I s) = lastDataCache s"
  by (simp add: broadcastReportsSummary_json_def)

lemma broadcastEarningsReport_json_invalid:
  "\<not> truthy (isValidData I ''earnings'') \<Longrightarrow>
   lastDataCache (broadcastEarningsReport_json query I s) = lastDataCache s"
  by (simp add: broadcastEarningsReport_json_def)

lemma cache_writers_invalid:
  assumes "(key, type, write) \<in> set (cache_writers conv socketId query)"
    and "\<not> truthy (isValidData I type)"
  shows "lastDataCache (write I s) = lastDataCache s"
  using assms
  by (auto simp add: cache_writers_def requestEarningsReport_json_def
      requestDriverPerformance_json_def requestRidesAnalysis_json_def
      requestReportsSummary_json_def request_json_invalid
      broadcastReportsSummary_json_invalid broadcastEarningsReport_json_invalid)

text \<open>
  C3. The snapshot cache is written only after validation: whichever of the six writers
  (the four request handlers, the two broadcast cycles) processes a payload that its
  validator rejects, the cache is left exactly as it was; so a snapshot \<open>V\<close> cached for the
  feed is still what \<open>get\<close> returns afterwards, in particular when \<open>V\<close> was a valid payload
  cached by a request handler just before.
\<close>

theorem invalid_payload_keeps_snapshot:
  assumes "(key, type, write) \<in> set (cache_writers conv socketId query)"
    and "\<not> truthy (isValidData I type)"
  shows "lastDataCache (write I s) = lastDataCache s \<and>
         (cache_get s key = Some V \<longrightarrow> cache_get (write I s) key = Some V) \<and>
         (truthy (isValidData V type) \<longrightarrow>
            cache_get (write I (request_json type key event socketId' V s)) key = Some V)"
proof -
  have keep: "lastDataCache (write I s') = lastDataCache s'" for s'
    using assms by (rule cache_writers_invalid)
  show ?thesis
  proof (intro conjI impI)
    show "lastDataCache (write I s) = lastDataCache s" by (rule keep)
    show "cache_get (write I s) key = Some V" if "cache_get s key = Some V"
      using that by (simp add: cache_get_def keep)
    show "cache_get (write I (request_json type key event socketId' V s)) key = Some V"
      if "truthy (isValidData V type)"
      using request_json_valid [OF that, of key event socketId' s]
      by (simp add: cache_get_def keep)
  qed
qed

theorem invalid_payload_keeps_snapshot_witness:
  "cache_get
     (requestEarningsReport_json ''s1'' (JObj [(''summary'', JObj [])])
        (request_json ''earnings'' ''earningsReport'' ''earningsReportData'' ''s2''
           (JObj [(''chartData'', JArr []), (''summary'', JObj [])]) new_service))
     ''earningsReport''
   = Some (JObj [(''chartData'', JArr []), (''summary'', JObj [])])"
proof -
  have w: "(''earningsReport'', ''earnings'', requestEarningsReport_json ''s1'')
           \<in> set (cache_writers (\<lambda>v. None) ''s1'' (JObj []))"
    by (simp add: cache_writers_def)
  have i: "\<not> truthy (isValidData (JObj [(''summary'', JObj [])]) ''earnings'')"
    by (simp add: isValidData_def get_prop_def js_and_def)
  have v: "truthy (isValidData (JObj [(''chartData'', JArr []), (''summary'', JObj [])]) ''earnings'')"
    by (simp add: isValidData_def get_prop_def js_and_def)
  show ?thesis
    using invalid_payload_keeps_snapshot [OF w i] v by blast
qed

subsection \<open>The re-entrancy guard\<close>

lemma inflight_emit [simp]: "inflight (emit t e d s) = inflight s"
  and flag_emit [simp]: "broadcastInProgress (emit t e d s) = broadcastInProgress s"
  and inflight_cache_set [simp]: "inflight (cache_set k d s) = inflight s"
  and flag_cache_set [simp]: "broadcastInProgress (cache_set k d s) = broadcastInProgress s"
  by (simp_all add: emit_def cache_set_def)

lemma guard_inv_emit [simp]: "guard_inv (emit t e d s) = guard_inv s"
  and guard_inv_cache_set [simp]: "guard_inv (cache_set k d s) = guard_inv s"
  by (simp_all add: guard_inv_def)

lemma guard_inv_send_if_cached [simp]: "guard_inv (send_if_cached k ty e sid s) = guard_inv s"
  by (simp add: send_if_cached_def split: option.split)

lemma guard_inv_request_json: "guard_inv (request_json ty k e sid d s) = guard_inv s"
  by (simp add: request_json_def split: option.split)

lemma guard_inv_clients [simp]: "guard_inv (s\<lparr>connectedClients := c\<rparr>) = guard_inv s"
  by (simp add: guard_inv_def)

lemma guard_inv_start_cycle: "guard_inv s \<Longrightarrow> \<not> broadcastInProgress s \<Longrightarrow> guard_inv (start_cycle f q s)"
  by (auto simp add: guard_inv_def start_cycle_def)

lemma guard_inv_broadcastReportsSummary: "guard_inv s \<Longrightarrow> guard_inv (broadcastReportsSummary s)"
  by (simp add: broadcastReportsSummary_def Let_def guard_inv_start_cycle)

lemma guard_inv_broadcastEarningsReport: "guard_inv s \<Longrightarrow> guard_inv (broadcastEarningsReport s)"
  by (simp add: broadcastEarningsReport_def Let_def guard_inv_start_cycle)

lemma guard_inv_timers [simp]: "guard_inv (s\<lparr>earningsTimers := n\<rparr>) = guard_inv s"
  by (simp add: guard_inv_def)

lemma guard_inv_triggerReportsUpdate: "guard_inv s \<Longrightarrow> guard_inv (triggerReportsUpdate s)"
proof -
  assume i: "guard_inv s"
  show ?thesis
  proof (cases "broadcastInProgress s \<or> length (connectedClients s) = 0")
    case True
    then show ?thesis using i
      by (auto simp add: triggerReportsUpdate_def broadcastReportsSummary_def Let_def)
  next
    case False
    with i have e: "inflight s = []" by (auto simp add: guard_inv_def)
    from False e show ?thesis
      by (simp add: triggerReportsUpdate_def broadcastReportsSummary_def Let_def
          start_cycle_def guard_inv_def)
  qed
qed

lemma guard_inv_controller_replies: "guard_inv s \<Longrightarrow> guard_inv (controller_replies conv i r s)"
proof -
  assume a: "guard_inv s"
  show ?thesis
  proof (cases "i < length (inflight s)")
    case False
    then show ?thesis using a by (simp add: controller_replies_def)
  next
    case True
    with a have "i = 0" "length (inflight s) = 1" by (auto simp add: guard_inv_def)
    then show ?thesis
      by (cases r; cases "cycleFeed (inflight s ! 0)")
        (simp_all add: controller_replies_def Let_def guard_inv_def
          broadcastReportsSummary_json_def broadcastEarningsReport_json_def)
  qed
qed

lemma guard_inv_step: "guard_inv s \<Longrightarrow> guard_inv (step conv s e)"
proof (cases e)
  case (RequestAnswered k sid d)
  assume "guard_inv s"
  then show ?thesis using RequestAnswered
    by (cases k) (simp_all add: requestEarningsReport_json_def requestDriverPerformance_json_def
        requestRidesAnalysis_json_def requestReportsSummary_json_def guard_inv_request_json)
qed (simp_all add: on_connection_def sendCachedDataToClient_def on_disconnect_def
    requestEarningsReport_def periodic_summary_def periodic_earnings_def
    guard_inv_broadcastReportsSummary guard_inv_broadcastEarningsReport guard_inv_triggerReportsUpdate
    earnings_timer_fires_def guard_inv_controller_replies split: option.split)

lemma guard_inv_foldl: "guard_inv s \<Longrightarrow> guard_inv (foldl (step conv) s es)"
  by (induction es arbitrary: s) (simp_all add: guard_inv_step)

lemma guard_inv_run: "guard_inv (run conv es)"
  unfolding run_def by (rule guard_inv_foldl) (simp add: guard_inv_def new_service_def)

text \<open>
  C8. Broadcast cycles never overlap. After any sequence of events at most one cycle is in
  flight, and while one is, the guard is set. While the guard is set, every trigger (the
  two periodic ones, \<open>triggerReportsUpdate\<close>, a direct call of either broadcast) leaves the
  service as it is: the trigger is skipped, and nothing is queued. The one-second timer of
  an earlier \<open>triggerReportsUpdate\<close> that fires meanwhile is used up without starting a cycle.
\<close>

theorem broadcast_cycles_never_overlap:
  "length (inflight (run conv events)) \<le> 1 \<and>
   (inflight (run conv events) \<noteq> [] \<longrightarrow> broadcastInProgress (run conv events)) \<and>
   (broadcastInProgress s \<longrightarrow>
      step conv s PeriodicSummary = s \<and> step conv s PeriodicEarnings = s \<and>
      step conv s TriggerReportsUpdate = s \<and>
      broadcastReportsSummary s = s \<and> broadcastEarningsReport s = s \<and>
      inflight (step conv s EarningsTimerFires) = inflight s \<and>
      earningsTimers (step conv s EarningsTimerFires) = earningsTimers s - 1)"
proof (intro conjI impI)
  show "length (inflight (run conv events)) \<le> 1"
    using guard_inv_run [of conv events] by (simp add: guard_inv_def)
  show "broadcastInProgress (run conv events)" if "inflight (run conv events) \<noteq> []"
    using guard_inv_run [of conv events] that by (simp add: guard_inv_def)
qed (simp_all add: periodic_summary_def periodic_earnings_def triggerReportsUpdate_def
    broadcastReportsSummary_def broadcastEarningsReport_def earnings_timer_fires_def)

theorem broadcast_cycles_never_overlap_witness:
  "inflight (run (\<lambda>v. None) [Connection ''a'', PeriodicSummary, TriggerReportsUpdate]) =
     [\<lparr>cycleFeed = SummaryFeed, cycleQuery = JObj [], thenEarningsTimer = False\<rparr>] \<and>
   step (\<lambda>v. None) (run (\<lambda>v. None) [Connection ''a'', PeriodicSummary, TriggerReportsUpdate])
     PeriodicEarnings
   = run (\<lambda>v. None) [Connection ''a'', PeriodicSummary, TriggerReportsUpdate]"
proof -
  let ?s = "run (\<lambda>v. None) [Connection ''a'', PeriodicSummary, TriggerReportsUpdate]"
  have c: "inflight ?s =
     [\<lparr>cycleFeed = SummaryFeed, cycleQuery = JObj [], thenEarningsTimer = False\<rparr>]"
    by (simp add: run_def new_service_def on_connection_def sendCachedDataToClient_def
        send_if_cached_def cache_get_def periodic_summary_def broadcastReportsSummary_def
        start_cycle_def triggerReportsUpdate_def get_prop_def Let_def)
  then have "inflight ?s \<noteq> []" by simp
  then show ?thesis
    using broadcast_cycles_never_overlap [of "\<lambda>v. None"
        "[Connection ''a'', PeriodicSummary, TriggerReportsUpdate]" ?s] c
    by blast
qed

subsection \<open>The dispatcher\<close>

lemma get_prop_obj: "get_prop (JObj fs) k = (case map_of fs k of Some x \<Rightarrow> x | None \<Rightarrow> JUndefined)"
  by (simp add: get_prop_def split: option.split)

lemma spread_with_same: "get_prop (spread_with v k x) k = x"
  by (simp add: spread_with_def get_prop_obj update_conv')

lemma spread_with_other:
  "k' \<noteq> k \<Longrightarrow> map_of (own_props (spread_with v k x)) k' = map_of (own_props v) k'"
  by (simp add: spread_with_def update_conv')

lemma spread_with_other_obj:
  "k' \<noteq> k \<Longrightarrow> get_prop (spread_with (JObj fs) k x) k' = get_prop (JObj fs) k'"
  by (simp add: spread_with_def get_prop_obj update_conv')

text \<open>
  C7. For every event, payload and optional room, the dispatcher sends the event to the room
  (or to everyone when no room is given) with a payload that has the caller's value on every
  own field except \<open>timestamp\<close>, and whose \<open>timestamp\<close> is the dispatcher's time stamp,
  whatever the caller supplied there.
\<close>

theorem broadcast_stamps_payload:
  "fst (snd (broadcast now event data room)) = event \<and>
   fst (broadcast now event data room) = (if truthy room then ToRoom room else ToAll) \<and>
   get_prop (snd (snd (broadcast now event data room))) ''timestamp'' = JStr now \<and>
   (\<forall>k. k \<noteq> ''timestamp'' \<longrightarrow>
      map_of (own_props (snd (snd (broadcast now event data room)))) k
        = map_of (own_props data) k) \<and>
   (\<forall>fs k. data = JObj fs \<and> k \<noteq> ''timestamp'' \<longrightarrow>
      get_prop (snd (snd (broadcast now event data room))) k = get_prop data k)"
  by (simp add: broadcast_def Let_def spread_with_same spread_with_other spread_with_other_obj)

theorem broadcast_stamps_payload_witness:
  "fst (broadcast ''2024-05-01T10:00:00.000Z'' ''driversUpdate''
     (JObj [(''timestamp'', JStr ''stale''), (''count'', JNum 7)]) JNull) = ToAll \<and>
   get_prop (snd (snd (broadcast ''2024-05-01T10:00:00.000Z'' ''driversUpdate''
     (JObj [(''timestamp'', JStr ''stale''), (''count'', JNum 7)]) JNull))) ''timestamp''
     = JStr ''2024-05-01T10:00:00.000Z'' \<and>
   get_prop (snd (snd (broadcast ''2024-05-01T10:00:00.000Z'' ''driversUpdate''
     (JObj [(''timestamp'', JStr ''stale''), (''count'', JNum 7)]) JNull))) ''count'' = JNum 7"
proof -
  have c: "get_prop (JObj [(''timestamp'', JStr ''stale''), (''count'', JNum 7)]) ''count'' = JNum 7"
    by (simp add: get_prop_def)
  have n: "''count'' \<noteq> ''timestamp''"
    by simp
  show ?thesis
    using broadcast_stamps_payload [of "''2024-05-01T10:00:00.000Z''" "''driversUpdate''"
        "JObj [(''timestamp'', JStr ''stale''), (''count'', JNum 7)]" JNull] c n
    by simp
qed

subsection \<open>Joining a room\<close>

lemma sent_send_if_cached:
  "sent (send_if_cached key type event socketId s) =
     sent s @
     (case lastDataCache s key of
        Some cached \<Rightarrow>
          if truthy cached \<and> truthy (isValidData cached type)
          then [(ToSocket socketId, event, cached)] else []
      | None \<Rightarrow> [])"
  by (simp add: send_if_cached_def emit_def cache_get_def split: option.split)

lemma cache_send_if_cached [simp]:
  "lastDataCache (send_if_cached key type event socketId s) = lastDataCache s"
  by (simp add: send_if_cached_def emit_def cache_get_def split: option.split)

lemma sendRoomData_vehicles:
  "sendRoomData store dashboard now (JStr ''vehicles'') =
   room_listing store now ''vehicles'' ''Vehicle'' ''vehiclesUpdate''
     ''Room-specific vehicle data loaded''"
  by (simp add: sendRoomData_def)

lemma sendRoomData_drivers:
  "sendRoomData store dashboard now (JStr ''drivers'') =
   room_listing store now ''drivers'' ''Driver'' ''driversUpdate''
     ''Room-specific driver data loaded''"
  by (simp add: sendRoomData_def)

lemma sendRoomData_dashboard:
  "sendRoomData store dashboard now (JStr ''dashboard'') = sendDashboardStats dashboard now"
  by (simp add: sendRoomData_def)

lemma sendRoomData_rides:
  "sendRoomData store dashboard now (JStr ''rides'') =
   room_listing store now ''rides'' ''Ride'' ''ridesUpdate''
     ''Room-specific rides data loaded''"
  by (simp add: sendRoomData_def)

lemma sendRoomData_admins:
  "sendRoomData store dashboard now (JStr ''admin-management'') =
   room_listing store now ''admin-management'' ''Admin'' ''adminsUpdate''
     ''Room-specific admin data loaded''"
  by (simp add: sendRoomData_def)

lemma sendRoomData_other:
  assumes "room \<noteq> ''vehicles''" "room \<noteq> ''drivers''" "room \<noteq> ''dashboard''"
    "room \<noteq> ''rides''" "room \<noteq> ''admin-management''"
  shows "sendRoomData store dashboard now (JStr room) = ([], [])"
  unfolding sendRoomData_def using assms by (simp only: jsval.inject if_False)

lemma socket_join_room_vehicles:
  "socket_join_room conv store dashboard now (JStr ''vehicles'') =
   sendInitialVehicleData store now"
  by (simp add: socket_join_room_def)

lemma socket_join_room_drivers:
  "socket_join_room conv store dashboard now (JStr ''drivers'') =
   sendInitialDriverData store now"
  by (simp add: socket_join_room_def)

lemma socket_join_room_dashboard:
  "socket_join_room conv store dashboard now (JStr ''dashboard'') =
   sendInitialDashboardData conv dashboard now"
  by (simp add: socket_join_room_def)

lemma socket_join_room_rides:
  "socket_join_room conv store dashboard now (JStr ''rides'') = ([], [])"
  by (simp add: socket_join_room_def)

lemma socket_join_room_admins:
  "socket_join_room conv store dashboard now (JStr ''admin-management'') =
   ([Emit ''connected''
       (JObj [(''message'', JStr ''Connected to admin management system''),
              (''timestamp'', JStr now)])],
    [])"
  by (simp add: socket_join_room_def)

lemma socket_join_room_other:
  assumes "room \<noteq> ''vehicles''" "room \<noteq> ''drivers''" "room \<noteq> ''dashboard''"
    "room \<noteq> ''admin-management''"
  shows "socket_join_room conv store dashboard now (JStr room) = ([], [])"
  unfolding socket_join_room_def using assms by (simp only: jsval.inject if_False)

lemma on_join_room_actions:
  "snd (on_join_room env room rooms) =
     fst (sendRoomData (server_store env) (server_dashboard env) (server_now env) room) @
     fst (socket_join_room (number_of env) (socket_store env) (socket_dashboard env)
            (socket_now env) room) @
     (if server_first env
      then snd (sendRoomData (server_store env) (server_dashboard env) (server_now env) room) @
           snd (socket_join_room (number_of env) (socket_store env) (socket_dashboard env)
                  (socket_now env) room)
      else snd (socket_join_room (number_of env) (socket_store env) (socket_dashboard env)
                  (socket_now env) room) @
           snd (sendRoomData (server_store env) (server_dashboard env) (server_now env) room))"
  by (simp add: on_join_room_def join_room_def Let_def)

text \<open>
  C6, as stated, fails on the code. Joining the room \<open>drivers\<close> first issues two store
  queries, one from each handler, and what is sent afterwards are the two fresh listings;
  joining the room \<open>reports\<close>, the only feed with a snapshot cache, sends nothing. No join
  handler reads a cache.
\<close>

theorem join_room_counterexample:
  "snd (on_join_room quiet_join_env (JStr ''drivers'') (Some []))
     = [StoreQuery ''Driver'',
        StoreQuery ''Driver'',
        Emit ''driversUpdate''
          (JObj [(''success'', JBool True), (''data'', JArr []), (''timestamp'', JStr ''t1''),
                 (''message'', JStr ''Room-specific driver data loaded'')]),
        Emit ''driversUpdate''
          (JObj [(''success'', JBool True), (''data'', JArr []), (''timestamp'', JStr ''t2'')])] \<and>
   snd (on_join_room quiet_join_env (JStr ''reports'') (Some [])) = []"
  by (simp add: on_join_room_actions sendRoomData_drivers sendRoomData_other
      socket_join_room_drivers socket_join_room_other room_listing_def sendInitialDriverData_def
      initial_listing_def quiet_join_env_def empty_listing_def)

text \<open>
  C6 (amended). A connection joining a room is served from the store, never from a cache.
  Joining \<open>vehicles\<close> or \<open>drivers\<close> issues two store queries at once (one per handler) and then
  sends, as each answer arrives, the freshly read listing, or an error event for a query
  that failed. Joining \<open>rides\<close> issues one query and then sends its listing or error. Joining
  \<open>admin-management\<close> issues one query, sends a \<open>connected\<close> greeting at once, and then the
  listing or error. Joining \<open>dashboard\<close> calls the dashboard controller twice and then sends
  the statistics it handed over, with a time stamp (from the second handler only when they
  pass \<open>validateStatsData\<close>). Joining any other room, \<open>reports\<close> included, sends nothing.
  Cached snapshots are sent without any round trip by the reports service when a
  connection is established: \<open>sendCachedDataToClient\<close> sends exactly the cached summary,
  earnings and driver-performance snapshots that are truthy and valid, in this order, and
  leaves the cache as it is.
\<close>

theorem join_queries_store_first:
  "snd (on_join_room env (JStr ''rides'') rooms) =
     StoreQuery ''Ride'' #
     (case server_store env ''Ride'' of
        Returns listing \<Rightarrow>
          [Emit ''ridesUpdate''
             (JObj [(''success'', JBool True), (''data'', listing),
                    (''timestamp'', JStr (server_now env)),
                    (''message'', JStr ''Room-specific rides data loaded'')])]
      | Raises msg \<Rightarrow>
          [Emit ''error''
             (JObj [(''message'', JStr ''Failed to load rides data''), (''error'', JStr msg)])]) \<and>
   snd (on_join_room env (JStr ''admin-management'') rooms) =
     StoreQuery ''Admin'' #
     Emit ''connected''
       (JObj [(''message'', JStr ''Connected to admin management system''),
              (''timestamp'', JStr (socket_now env))]) #
     (case server_store env ''Admin'' of
        Returns listing \<Rightarrow>
          [Emit ''adminsUpdate''
             (JObj [(''success'', JBool True), (''data'', listing),
                    (''timestamp'', JStr (server_now env)),
                    (''message'', JStr ''Room-specific admin data loaded'')])]
      | Raises msg \<Rightarrow>
          [Emit ''error''
             (JObj [(''message'', JStr ''Failed to load admin-management data''),
                    (''error'', JStr msg)])]) \<and>
   (let first = (case server_store env ''Driver'' of
                   Returns listing \<Rightarrow>
                     [Emit ''driversUpdate''
                        (JObj [(''success'', JBool True), (''data'', listing),
                               (''timestamp'', JStr (server_now env)),
                               (''message'', JStr ''Room-specific driver data loaded'')])]
                 | Raises msg \<Rightarrow>
                     [Emit ''error''
                        (JObj [(''message'', JStr ''Failed to load drivers data''),
                               (''error'', JStr msg)])]);
        second = (case socket_store env ''Driver'' of
                    Returns listing \<Rightarrow>
                      [Emit ''driversUpdate''
                         (JObj [(''success'', JBool True), (''data'', listing),
                                (''timestamp'', JStr (socket_now env))])]
                  | Raises msg \<Rightarrow>
                      [Emit ''error''
                         (JObj [(''message'', JStr ''Failed to fetch driver data''),
                                (''error'', JStr msg)])])
    in snd (on_join_room env (JStr ''drivers'') rooms) =
         StoreQuery ''Driver'' # StoreQuery ''Driver'' #
         (if server_first env then first @ second else second @ first)) \<and>
   (let first = (case server_store env ''Vehicle'' of
                   Returns listing \<Rightarrow>
                     [Emit ''vehiclesUpdate''
                        (JObj [(''success'', JBool True), (''data'', listing),
                               (''timestamp'', JStr (server_now env)),
                               (''message'', JStr ''Room-specific vehicle data loaded'')])]
                 | Raises msg \<Rightarrow>
                     [Emit ''error''
                        (JObj [(''message'', JStr ''Failed to load vehicles data''),
                               (''error'', JStr msg)])]);
        second = (case socket_store env ''Vehicle'' of
                    Returns listing \<Rightarrow>
                      [Emit ''vehiclesUpdate''
                         (JObj [(''success'', JBool True), (''data'', listing),
                                (''timestamp'', JStr (socket_now env))])]
                  | Raises msg \<Rightarrow>
                      [Emit ''error''
                         (JObj [(''message'', JStr ''Failed to fetch vehicle data''),
                                (''error'', JStr msg)])])
    in snd (on_join_room env (JStr ''vehicles'') rooms) =
         StoreQuery ''Vehicle'' # StoreQuery ''Vehicle'' #
         (if server_first env then first @ second else second @ first)) \<and>
   (let first = (case server_dashboard env of
                   Returns stats \<Rightarrow>
                     if truthy stats
                     then [Emit ''dashboardStats''
                             (spread_with stats ''timestamp'' (JStr (server_now env)))]
                     else []
                 | Raises msg \<Rightarrow> []);
        second = (case socket_dashboard env of
                    Returns stats \<Rightarrow>
                      if validateStatsData (number_of env) stats
                      then [Emit ''dashboardStats''
                              (spread_with stats ''timestamp'' (JStr (socket_now env)))]
                      else []
                  | Raises msg \<Rightarrow> [])
    in snd (on_join_room env (JStr ''dashboard'') rooms) =
         ControllerCall ''getDashboardStats'' # ControllerCall ''getDashboardStats'' #
         (if server_first env then first @ second else second @ first)) \<and>
   (room \<notin> {''vehicles'', ''drivers'', ''rides'', ''admin-management'', ''dashboard''} \<longrightarrow>
      snd (on_join_room env (JStr room) rooms) = []) \<and>
   sent (sendCachedDataToClient socketId s) =
     sent s @
     (case lastDataCache s ''reportsSummary'' of
        Some cached \<Rightarrow>
          if truthy cached \<and> truthy (isValidData cached ''summary'')
          then [(ToSocket socketId, ''reportsSummaryData'', cached)] else []
      | None \<Rightarrow> []) @
     (case lastDataCache s ''earningsReport'' of
        Some cached \<Rightarrow>
          if truthy cached \<and> truthy (isValidData cached ''earnings'')
          then [(ToSocket socketId, ''earningsReportData'', cached)] else []
      | None \<Rightarrow> []) @
     (case lastDataCache s ''driverPerformance'' of
        Some cached \<Rightarrow>
          if truthy cached \<and> truthy (isValidData cached ''drivers'')
          then [(ToSocket socketId, ''driverPerformanceData'', cached)] else []
      | None \<Rightarrow> []) \<and>
   lastDataCache (sendCachedDataToClient socketId s) = lastDataCache s"
proof (intro conjI impI)
  show "snd (on_join_room env (JStr ''rides'') rooms) =
     StoreQuery ''Ride'' #
     (case server_store env ''Ride'' of
        Returns listing \<Rightarrow>
          [Emit ''ridesUpdate''
             (JObj [(''success'', JBool True), (''data'', listing),
                    (''timestamp'', JStr (server_now env)),
                    (''message'', JStr ''Room-specific rides data loaded'')])]
      | Raises msg \<Rightarrow>
          [Emit ''error''
             (JObj [(''message'', JStr ''Failed to load rides data''), (''error'', JStr msg)])])"
    by (simp add: on_join_room_actions sendRoomData_rides socket_join_room_rides
        room_listing_def split: outcome.split)
next
  show "snd (on_join_room env (JStr ''admin-management'') rooms) =
     StoreQuery ''Admin'' #
     Emit ''connected''
       (JObj [(''message'', JStr ''Connected to admin management system''),
              (''timestamp'', JStr (socket_now env))]) #
     (case server_store env ''Admin'' of
        Returns listing \<Rightarrow>
          [Emit ''adminsUpdate''
             (JObj [(''success'', JBool True), (''data'', listing),
                    (''timestamp'', JStr (server_now env)),
                    (''message'', JStr ''Room-specific admin data loaded'')])]
      | Raises msg \<Rightarrow>
          [Emit ''error''
             (JObj [(''message'', JStr ''Failed to load admin-management data''),
                    (''error'', JStr msg)])])"
    by (simp add: on_join_room_actions sendRoomData_admins socket_join_room_admins
        room_listing_def split: outcome.split)
next
  show "let first = (case server_store env ''Driver'' of
                   Returns listing \<Rightarrow>
                     [Emit ''driversUpdate''
                        (JObj [(''success'', JBool True), (''data'', listing),
                               (''timestamp'', JStr (server_now env)),
                               (''message'', JStr ''Room-specific driver data loaded'')])]
                 | Raises msg \<Rightarrow>
                     [Emit ''error''
                        (JObj [(''message'', JStr ''Failed to load drivers data''),
                               (''error'', JStr msg)])]);
        second = (case socket_store env ''Driver'' of
                    Returns listing \<Rightarrow>
                      [Emit ''driversUpdate''
                         (JObj [(''success'', JBool True), (''data'', listing),
                                (''timestamp'', JStr (socket_now env))])]
                  | Raises msg \<Rightarrow>
                      [Emit ''error''
                         (JObj [(''message'', JStr ''Failed to fetch driver data''),
                                (''error'', JStr msg)])])
    in snd (on_join_room env (JStr ''drivers'') rooms) =
         StoreQuery ''Driver'' # StoreQuery ''Driver'' #
         (if server_first env then first @ second else second @ first)"
    by (simp add: on_join_room_actions sendRoomData_drivers socket_join_room_drivers
        room_listing_def sendInitialDriverData_def initial_listing_def Let_def
        split: outcome.split)
next
  show "let first = (case server_store env ''Vehicle'' of
                   Returns listing \<Rightarrow>
                     [Emit ''vehiclesUpdate''
                        (JObj [(''success'', JBool True), (''data'', listing),
                               (''timestamp'', JStr (server_now env)),
                               (''message'', JStr ''Room-specific vehicle data loaded'')])]
                 | Raises msg \<Rightarrow>
                     [Emit ''error''
                        (JObj [(''message'', JStr ''Failed to load vehicles data''),
                               (''error'', JStr msg)])]);
        second = (case socket_store env ''Vehicle'' of
                    Returns listing \<Rightarrow>
                      [Emit ''vehiclesUpdate''
                         (JObj [(''success'', JBool True), (''data'', listing),
                                (''timestamp'', JStr (socket_now env))])]
                  | Raises msg \<Rightarrow>
                      [Emit ''error''
                         (JObj [(''message'', JStr ''Failed to fetch vehicle data''),
                                (''error'', JStr msg)])])
    in snd (on_join_room env (JStr ''vehicles'') rooms) =
         StoreQuery ''Vehicle'' # StoreQuery ''Vehicle'' #
         (if server_first env then first @ second else second @ first)"
    by (simp add: on_join_room_actions sendRoomData_vehicles socket_join_room_vehicles
        room_listing_def sendInitialVehicleData_def initial_listing_def Let_def
        split: outcome.split)
next
  show "let first = (case server_dashboard env of
                   Returns stats \<Rightarrow>
                     if truthy stats
                     then [Emit ''dashboardStats''
                             (spread_with stats ''timestamp'' (JStr (server_now env)))]
                     else []
                 | Raises msg \<Rightarrow> []);
        second = (case socket_dashboard env of
                    Returns stats \<Rightarrow>
                      if validateStatsData (number_of env) stats
                      then [Emit ''dashboardStats''
                              (spread_with stats ''timestamp'' (JStr (socket_now env)))]
                      else []
                  | Raises msg \<Rightarrow> [])
    in snd (on_join_room env (JStr ''dashboard'') rooms) =
         ControllerCall ''getDashboardStats'' # ControllerCall ''getDashboardStats'' #
         (if server_first env then first @ second else second @ first)"
    by (simp add: on_join_room_actions sendRoomData_dashboard socket_join_room_dashboard
        sendDashboardStats_def sendInitialDashboardData_def getDashboardStats_def
        spread_with_def Let_def split: outcome.split)
next
  assume "room \<notin> {''vehicles'', ''drivers'', ''rides'', ''admin-management'', ''dashboard''}"
  then have ne: "room \<noteq> ''vehicles''" "room \<noteq> ''drivers''" "room \<noteq> ''dashboard''"
    "room \<noteq> ''rides''" "room \<noteq> ''admin-management''"
    by (simp_all only: insert_iff empty_iff de_Morgan_disj simp_thms)
  have a: "sendRoomData (server_store env) (server_dashboard env) (server_now env) (JStr room)
           = ([], [])"
    using ne by (rule sendRoomData_other)
  have b: "socket_join_room (number_of env) (socket_store env) (socket_dashboard env)
             (socket_now env) (JStr room) = ([], [])"
    using ne(1,2,3,5) by (rule socket_join_room_other)
  show "snd (on_join_room env (JStr room) rooms) = []"
    by (simp add: on_join_room_actions a b)
next
  show "sent (sendCachedDataToClient socketId s) =
     sent s @
     (case lastDataCache s ''reportsSummary'' of
        Some cached \<Rightarrow>
          if truthy cached \<and> truthy (isValidData cached ''summary'')
          then [(ToSocket socketId, ''reportsSummaryData'', cached)] else []
      | None \<Rightarrow> []) @
     (case lastDataCache s ''earningsReport'' of
        Some cached \<Rightarrow>
          if truthy cached \<and> truthy (isValidData cached ''earnings'')
          then [(ToSocket socketId, ''earningsReportData'', cached)] else []
      | None \<Rightarrow> []) @
     (case lastDataCache s ''driverPerformance'' of
        Some cached \<Rightarrow>
          if truthy cached \<and> truthy (isValidData cached ''drivers'')
          then [(ToSocket socketId, ''driverPerformanceData'', cached)] else []
      | None \<Rightarrow> [])"
    by (simp add: sendCachedDataToClient_def sent_send_if_cached)
next
  show "lastDataCache (sendCachedDataToClient socketId s) = lastDataCache s"
    by (simp add: sendCachedDataToClient_def)
qed

theorem join_queries_store_first_witness:
  "snd (on_join_room quiet_join_env (JStr ''rides'') None) =
     [StoreQuery ''Ride'',
      Emit ''ridesUpdate''
        (JObj [(''success'', JBool True), (''data'', JArr []), (''timestamp'', JStr ''t1''),
               (''message'', JStr ''Room-specific rides data loaded'')])] \<and>
   snd (on_join_room quiet_join_env (JStr ''dashboard'') None) =
     [ControllerCall ''getDashboardStats'', ControllerCall ''getDashboardStats''] \<and>
   snd (on_join_room quiet_join_env (JStr ''chat'') None) = [] \<and>
   sent (sendCachedDataToClient ''s9''
          (cache_set ''reportsSummary''
             (JObj [(''totalEarnings'', JNum 3), (''totalRides'', JNum 1)]) new_service))
     = [(ToSocket ''s9'', ''reportsSummaryData'',
         JObj [(''totalEarnings'', JNum 3), (''totalRides'', JNum 1)])]"
proof -
  have r: "''chat'' \<notin> {''vehicles'', ''drivers'', ''rides'', ''admin-management'', ''dashboard''}"
    by simp
  have v: "truthy (isValidData (JObj [(''totalEarnings'', JNum 3), (''totalRides'', JNum 1)])
             ''summary'')"
    by (simp add: isValidData_def get_prop_def)
  have q: "server_store quiet_join_env ''Ride'' = Returns (JArr [])"
    "server_now quiet_join_env = ''t1''" "server_first quiet_join_env"
    "server_dashboard quiet_join_env = Raises ''down''"
    "socket_dashboard quiet_join_env = Raises ''down''"
    by (simp_all add: quiet_join_env_def empty_listing_def)
  show ?thesis
    using join_queries_store_first [of quiet_join_env None "''chat''" "''s9''"
        "cache_set ''reportsSummary''
           (JObj [(''totalEarnings'', JNum 3), (''totalRides'', JNum 1)]) new_service"] r v
    by (simp add: q Let_def cache_set_def new_service_def)
qed

subsection \<open>The simulation loop\<close>

lemma map_if_find_None:
  "List.find P xs = None \<Longrightarrow> map (\<lambda>x. if P x then f x else x) xs = xs"
  by (induction xs) (auto split: if_splits)

lemma findByIdAndUpdate_fails:
  "write_error e = Some msg \<Longrightarrow> findByIdAndUpdate e ident u store = Raises msg"
  by (simp add: findByIdAndUpdate_def)

lemma findByIdAndUpdate_writes:
  assumes "write_error (env (driverId d)) = None"
  shows "\<exists>r. findByIdAndUpdate (env (driverId d)) (driverId d)
               (fst (simulate_driver (env (driverId d)) d)) store
             = Returns (write_update env d store, r)"
proof (cases "List.find (\<lambda>doc. driverId doc = driverId d) store")
  case None
  then have "write_update env d store = store"
    unfolding write_update_def by (rule map_if_find_None)
  with None assms show ?thesis
    by (simp add: findByIdAndUpdate_def)
next
  case (Some doc)
  with assms show ?thesis
    by (simp add: findByIdAndUpdate_def write_update_def)
qed

lemma simulate_all_aborts:
  assumes "\<forall>p \<in> set pre. write_error (env (driverId p)) = None"
    and "write_error (env (driverId d)) = Some msg"
  shows "\<exists>alerts. simulate_all env (pre @ d # post) store updated events =
           LoopAborted (persisted env pre store) (events @ alerts) \<and> list_all is_alert alerts"
  using assms(1)
proof (induction pre arbitrary: store updated events)
  case Nil
  obtain u alerts where sd: "simulate_driver (env (driverId d)) d = (u, alerts)"
    by (cases "simulate_driver (env (driverId d)) d")
  have al: "list_all is_alert alerts"
    using sd by (auto simp add: simulate_driver_def emergency_injection_def Let_def
        split: prod.splits if_splits)
  show ?case
    using sd al findByIdAndUpdate_fails [OF assms(2), of "driverId d" u store]
    by (simp add: persisted_def)
next
  case (Cons p pre)
  obtain u alerts where sd: "simulate_driver (env (driverId p)) p = (u, alerts)"
    by (cases "simulate_driver (env (driverId p)) p")
  have al: "list_all is_alert alerts"
    using sd by (auto simp add: simulate_driver_def emergency_injection_def Let_def
        split: prod.splits if_splits)
  from Cons.prems have ok: "write_error (env (driverId p)) = None"
    and rest: "\<forall>q \<in> set pre. write_error (env (driverId q)) = None"
    by simp_all
  obtain r where w: "findByIdAndUpdate (env (driverId p)) (driverId p) u store
      = Returns (write_update env p store, r)"
    using findByIdAndUpdate_writes [of env p store] ok sd by auto
  obtain alerts' where
    ih: "simulate_all env (pre @ d # post) (write_update env p store) (updated @ [r])
           (events @ alerts) =
         LoopAborted (persisted env pre (write_update env p store)) ((events @ alerts) @ alerts')"
    and al': "list_all is_alert alerts'"
    using Cons.IH [OF rest] by blast
  have "simulate_all env ((p # pre) @ d # post) store updated events =
        LoopAborted (persisted env (p # pre) store) (events @ (alerts @ alerts'))"
    using sd w ih by (simp add: persisted_def)
  moreover have "list_all is_alert (alerts @ alerts')"
    using al al' by simp
  ultimately show ?case by blast
qed

lemma ids_write_update [simp]: "map driverId (write_update env d store) = map driverId store"
  by (simp add: write_update_def apply_update_def)

lemma ids_persisted [simp]: "map driverId (persisted env ds store) = map driverId store"
  unfolding persisted_def by (induction ds arbitrary: store) simp_all

lemma length_persisted [simp]: "length (persisted env ds store) = length store"
  using ids_persisted [of env ds store] by (metis length_map)

lemma write_update_other:
  "k < length store \<Longrightarrow> driverId (store ! k) \<noteq> driverId d \<Longrightarrow>
   write_update env d store ! k = store ! k"
  by (simp add: write_update_def)

lemma persisted_other:
  "k < length store \<Longrightarrow> driverId (store ! k) \<notin> driverId ` set ds \<Longrightarrow>
   persisted env ds store ! k = store ! k"
proof (induction ds arbitrary: store)
  case Nil
  then show ?case by (simp add: persisted_def)
next
  case (Cons d ds)
  from Cons.prems have ne: "driverId (store ! k) \<noteq> driverId d"
    and rest: "driverId (store ! k) \<notin> driverId ` set ds"
    by auto
  have same: "write_update env d store ! k = store ! k"
    using Cons.prems(1) ne by (rule write_update_other)
  have "persisted env ds (write_update env d store) ! k = write_update env d store ! k"
    using Cons.prems(1) rest same
    by (intro Cons.IH) (simp_all add: write_update_def)
  with same show ?case by (simp add: persisted_def)
qed

lemma persisted_keeps:
  assumes "x \<in> set store" "driverId x \<notin> driverId ` set ds"
  shows "x \<in> set (persisted env ds store)"
proof -
  from assms(1) obtain k where k: "k < length store" "store ! k = x"
    by (auto simp add: in_set_conv_nth)
  then have "persisted env ds store ! k = x"
    using persisted_other [of k store ds env] assms(2) by simp
  moreover have "k < length (persisted env ds store)"
    using k by simp
  ultimately show ?thesis
    by (metis nth_mem)
qed

lemma persisted_has_update:
  assumes "q \<in> set ds" "q \<in> set store" "distinct (map driverId ds)"
  shows "apply_update (fst (simulate_driver (env (driverId q)) q)) q \<in> set (persisted env ds store)"
  using assms
proof (induction ds arbitrary: store)
  case Nil
  then show ?case by simp
next
  case (Cons d ds)
  have unfold: "persisted env (d # ds) store = persisted env ds (write_update env d store)"
    by (simp add: persisted_def)
  show ?case
  proof (cases "q = d")
    case True
    have "apply_update (fst (simulate_driver (env (driverId d)) d)) d \<in> set (write_update env d store)"
      using Cons.prems(2) True by (auto simp add: write_update_def image_iff)
    moreover have "driverId (apply_update (fst (simulate_driver (env (driverId d)) d)) d)
        \<notin> driverId ` set ds"
      using Cons.prems(3) by (simp add: apply_update_def)
    ultimately show ?thesis
      unfolding unfold True by (rule persisted_keeps)
  next
    case False
    with Cons.prems have q: "q \<in> set ds"
      by auto
    from Cons.prems(3) have "driverId d \<notin> driverId ` set ds"
      by simp
    with q have ne: "driverId q \<noteq> driverId d"
      by (metis imageI)
    have "q \<in> set (write_update env d store)"
      using Cons.prems(2) ne by (auto simp add: write_update_def image_iff)
    then show ?thesis
      unfolding unfold using Cons.prems(3) q by (intro Cons.IH) simp_all
  qed
qed





subsection \<open>Trip completion in the simulation tick\<close>


lemma sample_parse: "parse_eta (Some ''1 mins'') = 1"
  by (simp add: parse_eta_def is_digit_def digits_value_def)


lemma trip_progress_completes:
  assumes "status d = ''active''" "truthy_string (destination d)" "parse_eta (eta d) \<le> 1"
  shows "trip_progress env d =
           (d\<lparr>status := ''idle'', destination := None, passenger := None, tripId := None,
              completedTrips := completedTrips d + 1\<rparr>, None)"
  using assms by (simp add: trip_progress_def Let_def)

lemma trip_assignment_skipped:
  "\<not> random_trip env < 1 / 10 \<Longrightarrow> trip_assignment env sp (d, e) = (d, e)"
  by (simp add: trip_assignment_def)

lemma trip_assignment_fires:
  assumes "status d = ''idle''" "random_trip env < 1 / 10"
  shows "trip_assignment env sp (d, e) =
           (d\<lparr>status := ''active'',
              destination :=
                (case getRandomDestination env of Some r \<Rightarrow> r | None \<Rightarrow> Some ''Random Location''),
              passenger :=
                (case getRandomPassenger env of Some r \<Rightarrow> r | None \<Rightarrow> Some ''Random Passenger''),
              tripId :=
                Some (''TRP'' @ drop (length (show_nat (date_now env)) - 6) (show_nat (date_now env)))\<rparr>,
            (case generateETA env of
               Some g \<Rightarrow> g (random_distance env * 10 + 2) (if sp = 0 then 40 else sp)
             | None \<Rightarrow> Some ''15 mins''))"
  unfolding trip_assignment_def using assms by (simp only: prod.case Let_def simp_thms if_True)

lemma emergency_keeps_trip:
  "destination (emergency_resolution env (fst (emergency_injection env d))) = destination d \<and>
   passenger (emergency_resolution env (fst (emergency_injection env d))) = passenger d \<and>
   tripId (emergency_resolution env (fst (emergency_injection env d))) = tripId d \<and>
   completedTrips (emergency_resolution env (fst (emergency_injection env d))) = completedTrips d"
  by (simp add: emergency_resolution_def emergency_injection_def Let_def)

lemma emergency_status:
  "status d = ''idle'' \<Longrightarrow>
     status (emergency_resolution env (fst (emergency_injection env d))) = ''idle''"
  "status d = ''active'' \<Longrightarrow>
     status (emergency_resolution env (fst (emergency_injection env d))) \<in> {''active'', ''emergency''}"
  by (simp_all add: emergency_resolution_def emergency_injection_def Let_def)

lemma simulate_driver_fields:
  "new_eta (fst (simulate_driver env d)) =
     snd (trip_assignment env (fst (snd (simulate_motion env d))) (trip_progress env d))"
  "new_status (fst (simulate_driver env d)) =
     status (emergency_resolution env (fst (emergency_injection env
       (fst (trip_assignment env (fst (snd (simulate_motion env d))) (trip_progress env d))))))"
  "new_destination (fst (simulate_driver env d)) =
     destination (emergency_resolution env (fst (emergency_injection env
       (fst (trip_assignment env (fst (snd (simulate_motion env d))) (trip_progress env d))))))"
  "new_passenger (fst (simulate_driver env d)) =
     passenger (emergency_resolution env (fst (emergency_injection env
       (fst (trip_assignment env (fst (snd (simulate_motion env d))) (trip_progress env d))))))"
  "new_tripId (fst (simulate_driver env d)) =
     tripId (emergency_resolution env (fst (emergency_injection env
       (fst (trip_assignment env (fst (snd (simulate_motion env d))) (trip_progress env d))))))"
  "new_completedTrips (fst (simulate_driver env d)) =
     completedTrips (emergency_resolution env (fst (emergency_injection env
       (fst (trip_assignment env (fst (snd (simulate_motion env d))) (trip_progress env d))))))"
  by (simp_all add: simulate_driver_def Let_def split: prod.splits)

lemma trip_completion_update:
  assumes "status d = ''active''" "truthy_string (destination d)" "parse_eta (eta d) \<le> 1"
  shows "new_completedTrips (fst (simulate_driver env d)) = completedTrips d + 1 \<and>
         (\<not> random_trip env < 1 / 10 \<longrightarrow>
            new_status (fst (simulate_driver env d)) = ''idle'' \<and>
            new_destination (fst (simulate_driver env d)) = None \<and>
            new_passenger (fst (simulate_driver env d)) = None \<and>
            new_tripId (fst (simulate_driver env d)) = None \<and>
            new_eta (fst (simulate_driver env d)) = None) \<and>
         (random_trip env < 1 / 10 \<longrightarrow>
            new_status (fst (simulate_driver env d)) \<in> {''active'', ''emergency''} \<and>
            new_destination (fst (simulate_driver env d)) =
              (case getRandomDestination env of Some r \<Rightarrow> r | None \<Rightarrow> Some ''Random Location'') \<and>
            new_passenger (fst (simulate_driver env d)) =
              (case getRandomPassenger env of Some r \<Rightarrow> r | None \<Rightarrow> Some ''Random Passenger'') \<and>
            new_tripId (fst (simulate_driver env d)) =
              Some (''TRP'' @ drop (length (show_nat (date_now env)) - 6) (show_nat (date_now env))) \<and>
            new_eta (fst (simulate_driver env d)) =
              (case generateETA env of
                 Some g \<Rightarrow> g (random_distance env * 10 + 2)
                            (if fst (snd (simulate_motion env d)) = 0 then 40
                             else fst (snd (simulate_motion env d)))
               | None \<Rightarrow> Some ''15 mins''))"
proof -
  let ?sp = "fst (snd (simulate_motion env d))"
  let ?done = "d\<lparr>status := ''idle'', destination := None, passenger := None, tripId := None,
              completedTrips := completedTrips d + 1\<rparr>"
  have tp: "trip_progress env d = (?done, None)"
    using assms by (rule trip_progress_completes)
  show ?thesis
  proof (cases "random_trip env < 1 / 10")
    case False
    then have ta: "trip_assignment env ?sp (trip_progress env d) = (?done, None)"
      unfolding tp by (rule trip_assignment_skipped)
    have st: "status ?done = ''idle''" by simp
    show ?thesis
      using False emergency_keeps_trip [of env ?done] emergency_status(1) [OF st, of env]
      by (simp add: simulate_driver_fields ta)
  next
    case True
    have st: "status ?done = ''idle''" by simp
    define dest where
      "dest = (case getRandomDestination env of Some r \<Rightarrow> r | None \<Rightarrow> Some ''Random Location'')"
    define pass where
      "pass = (case getRandomPassenger env of Some r \<Rightarrow> r | None \<Rightarrow> Some ''Random Passenger'')"
    define trip where
      "trip = ''TRP'' @ drop (length (show_nat (date_now env)) - 6) (show_nat (date_now env))"
    define e' where
      "e' = (case generateETA env of
               Some g \<Rightarrow> g (random_distance env * 10 + 2) (if ?sp = 0 then 40 else ?sp)
             | None \<Rightarrow> Some ''15 mins'')"
    have ta: "trip_assignment env ?sp (trip_progress env d) =
           (?done\<lparr>status := ''active'', destination := dest, passenger := pass,
              tripId := Some trip\<rparr>, e')"
      unfolding tp dest_def pass_def trip_def e'_def
      using st True by (rule trip_assignment_fires)
    let ?new = "?done\<lparr>status := ''active'', destination := dest, passenger := pass,
              tripId := Some trip\<rparr>"
    have sa: "status ?new = ''active''" by simp
    show ?thesis
      using True emergency_keeps_trip [of env ?new] emergency_status(2) [OF sa, of env]
      unfolding dest_def [symmetric] pass_def [symmetric] trip_def [symmetric] e'_def [symmetric]
      by (simp add: simulate_driver_fields ta)
  qed
qed

lemma tick_single_driver:
  assumes "isOnline d" "write_error (env (driverId d)) = None"
  shows "fst (simulation_tick env [d]) =
         [apply_update (fst (simulate_driver (env (driverId d)) d)) d]"
proof -
  obtain u alerts where sd: "simulate_driver (env (driverId d)) d = (u, alerts)"
    by (cases "simulate_driver (env (driverId d)) d")
  show ?thesis
    using assms by (simp add: simulation_tick_def sd findByIdAndUpdate_def)
qed




subsection \<open>A failing write during the tick\<close>

text \<open>
  C5, as stated, fails on the code. With two online drivers and a write that fails for the
  first, the tick leaves the second as it was and emits nothing, although on its own the
  second driver would have been updated.
\<close>

theorem write_failure_counterexample:
  "simulation_tick (failing_write ''d1'' sample_env)
     [sample_driver, sample_driver\<lparr>driverId := ''d2''\<rparr>]
   = ([sample_driver, sample_driver\<lparr>driverId := ''d2''\<rparr>], []) \<and>
   fst (simulation_tick (failing_write ''d1'' sample_env) [sample_driver\<lparr>driverId := ''d2''\<rparr>])
   \<noteq> [sample_driver\<lparr>driverId := ''d2''\<rparr>]"
proof -
  let ?env = "failing_write ''d1'' sample_env"
  let ?d2 = "sample_driver\<lparr>driverId := ''d2''\<rparr>"
  have e1: "?env ''d1'' = sample_env\<lparr>write_error := Some ''write failed''\<rparr>"
    and e2: "?env ''d2'' = sample_env"
    by (simp_all add: failing_write_def)
  have sd: "snd (simulate_driver (sample_env\<lparr>write_error := Some ''write failed''\<rparr>) sample_driver) = []"
    by (simp add: simulate_driver_def simulate_motion_def trip_progress_def trip_assignment_def
        emergency_injection_def emergency_resolution_def sample_env_def sample_driver_def
        sample_parse Let_def split: prod.splits del: show_nat.simps)
  obtain u where sdu:
    "simulate_driver (sample_env\<lparr>write_error := Some ''write failed''\<rparr>) sample_driver = (u, [])"
    using sd by (cases "simulate_driver (sample_env\<lparr>write_error := Some ''write failed''\<rparr>)
        sample_driver") simp
  have facts: "isOnline sample_driver" "driverId sample_driver = ''d1''" "isOnline ?d2"
    by (simp_all add: sample_driver_def)
  have first: "simulation_tick ?env [sample_driver, ?d2] = ([sample_driver, ?d2], [])"
    by (simp add: simulation_tick_def facts e1 sdu findByIdAndUpdate_def)
  have "fst (simulation_tick ?env [?d2]) = [apply_update (fst (simulate_driver (?env (driverId ?d2)) ?d2)) ?d2]"
    by (rule tick_single_driver) (simp_all add: sample_driver_def sample_env_def failing_write_def)
  then have "map completedTrips (fst (simulation_tick ?env [?d2])) = [5]"
    using trip_completion_update [of ?d2 sample_env]
    by (simp add: apply_update_def sample_driver_def sample_parse e2)
  moreover have "map completedTrips [?d2] = [4]"
    by (simp add: sample_driver_def)
  ultimately have "fst (simulation_tick ?env [?d2]) \<noteq> [?d2]"
    by auto
  with first show ?thesis by blast
qed

text \<open>
  C5 (amended). When the store write for one online driver fails during a tick, the tick
  ends there. The drivers before it in the iteration have been simulated and persisted;
  that driver and the drivers after it are left as they were; and neither the end-of-tick
  \<open>driversUpdate\<close> broadcast nor any \<open>locationUpdate\<close> is sent: the only events of the tick
  are the emergency alerts already emitted.
\<close>

theorem write_failure_aborts_tick:
  assumes "filter isOnline store = pre @ d # post"
    and "\<forall>p \<in> set pre. write_error (env (driverId p)) = None"
    and "write_error (env (driverId d)) = Some msg"
  shows "list_all is_alert (snd (simulation_tick env store)) \<and>
         map driverId (fst (simulation_tick env store)) = map driverId store \<and>
         (\<forall>k < length store. driverId (store ! k) \<notin> driverId ` set pre \<longrightarrow>
            fst (simulation_tick env store) ! k = store ! k) \<and>
         (distinct (map driverId store) \<longrightarrow>
            (\<forall>p \<in> set pre. apply_update (fst (simulate_driver (env (driverId p)) p)) p
                \<in> set (fst (simulation_tick env store))))"
proof -
  obtain alerts where
    loop: "simulate_all env (filter isOnline store) store [] [] =
             LoopAborted (persisted env pre store) alerts"
    and al: "list_all is_alert alerts"
    using simulate_all_aborts [OF assms(2,3), of post store "[]" "[]"] assms(1) by auto
  have tick: "simulation_tick env store = (persisted env pre store, alerts)"
    by (simp add: simulation_tick_def loop)
  have pre_in: "set pre \<subseteq> set store"
  proof -
    have "set (filter isOnline store) = set (pre @ d # post)"
      by (simp only: assms(1))
    then have "set pre \<subseteq> set (filter isOnline store)"
      by (simp only: set_append) blast
    then show ?thesis by auto
  qed
  have dist: "distinct (map driverId pre)" if "distinct (map driverId store)"
  proof -
    have "distinct (map driverId (filter isOnline store))"
      using that by (rule distinct_map_filter)
    then show ?thesis using assms(1) by simp
  qed
  show ?thesis
    unfolding tick using al pre_in dist
    by (auto simp add: persisted_other intro!: persisted_has_update)
qed

theorem write_failure_aborts_tick_witness:
  "list_all is_alert
     (snd (simulation_tick (failing_write ''d2'' sample_env)
        [sample_driver, sample_driver\<lparr>driverId := ''d2''\<rparr>, sample_driver\<lparr>driverId := ''d3''\<rparr>])) \<and>
   fst (simulation_tick (failing_write ''d2'' sample_env)
        [sample_driver, sample_driver\<lparr>driverId := ''d2''\<rparr>, sample_driver\<lparr>driverId := ''d3''\<rparr>]) ! 2
     = sample_driver\<lparr>driverId := ''d3''\<rparr> \<and>
   apply_update (fst (simulate_driver sample_env sample_driver)) sample_driver
     \<in> set (fst (simulation_tick (failing_write ''d2'' sample_env)
        [sample_driver, sample_driver\<lparr>driverId := ''d2''\<rparr>, sample_driver\<lparr>driverId := ''d3''\<rparr>]))"
proof -
  let ?env = "failing_write ''d2'' sample_env"
  let ?store = "[sample_driver, sample_driver\<lparr>driverId := ''d2''\<rparr>,
                 sample_driver\<lparr>driverId := ''d3''\<rparr>]"
  have f: "filter isOnline ?store =
           [sample_driver] @ sample_driver\<lparr>driverId := ''d2''\<rparr> # [sample_driver\<lparr>driverId := ''d3''\<rparr>]"
    by (simp add: sample_driver_def)
  have ok: "\<forall>p \<in> set [sample_driver]. write_error (?env (driverId p)) = None"
    by (simp add: sample_driver_def sample_env_def failing_write_def)
  have bad: "write_error (?env (driverId (sample_driver\<lparr>driverId := ''d2''\<rparr>))) = Some ''write failed''"
    by (simp add: failing_write_def)
  have k: "(2::nat) < length ?store" "driverId (?store ! 2) \<notin> driverId ` set [sample_driver]"
    "distinct (map driverId ?store)" "?env (driverId sample_driver) = sample_env"
    by (simp_all add: sample_driver_def failing_write_def)
  show ?thesis
    using write_failure_aborts_tick [OF f ok bad] k by auto
qed

subsection \<open>Change streams and reconnection\<close>

lemma watch_inv_new: "watch_inv new_watcher"
  by (simp add: watch_inv_def new_watcher_def)

lemma watch_inv_close_stream: "watch_inv w \<Longrightarrow> watch_inv (close_stream h w)"
  by (auto simp add: watch_inv_def close_stream_def list_all_iff distinct_removeAll
      split: option.splits)

lemma watch_inv_schedule [simp]: "watch_inv (schedule_reconnect w) = watch_inv w"
  by (simp add: watch_inv_def schedule_reconnect_def split: option.split)

lemma watch_inv_connected [simp]: "watch_inv (w\<lparr>isConnected := b\<rparr>) = watch_inv w"
  by (simp add: watch_inv_def split: option.split)

lemma watch_inv_timers [simp]: "watch_inv (w\<lparr>reconnectTimers := ts\<rparr>) = watch_inv w"
  by (simp add: watch_inv_def split: option.split)

lemma watch_inv_setupStream: "watch_inv w \<Longrightarrow> watch_inv (setupStream ok w)"
proof -
  assume i: "watch_inv w"
  define w1 where "w1 = (case changeStream w of Some h \<Rightarrow> close_stream h w | None \<Rightarrow> w)"
  have i1: "watch_inv w1"
    unfolding w1_def using i by (simp add: watch_inv_close_stream split: option.split)
  have c1: "changeStream w1 = changeStream w" "directStream w1 = directStream w"
    unfolding w1_def by (simp_all add: close_stream_def split: option.split)
  have only_direct: "list_all (\<lambda>h. directStream w1 = Some h) (openStreams w1)"
  proof (cases "changeStream w")
    case None
    then show ?thesis using i by (auto simp add: w1_def watch_inv_def list_all_iff)
  next
    case (Some h)
    then show ?thesis using i
      by (auto simp add: w1_def watch_inv_def list_all_iff close_stream_def)
  qed
  show ?thesis
  proof (cases ok)
    case False
    then show ?thesis using i1 by (simp add: setupStream_def w1_def [symmetric])
  next
    case True
    have "watch_inv
            (w1\<lparr>openStreams := openStreams w1 @ [nextHandle w1], nextHandle := Suc (nextHandle w1),
               changeStream := Some (nextHandle w1),
               watcherStreams := watcherStreams w1 @ [nextHandle w1], isConnected := True\<rparr>)"
      using i1 only_direct
      by (auto simp add: watch_inv_def list_all_iff c1 less_Suc_eq split: option.splits)
    then show ?thesis using True
      by (simp add: setupStream_def w1_def [symmetric] watch_collection_def)
  qed
qed

lemma direct_setupStream [simp]: "directStream (setupStream ok w) = directStream w"
  by (simp add: setupStream_def close_stream_def watch_collection_def schedule_reconnect_def
      split: option.split)

lemma watch_inv_direct:
  assumes "watch_inv w" "directStream w = None"
  shows "watch_inv (setupDirectDbChangeDetection ok w)"
proof (cases ok)
  case False
  then show ?thesis using assms by (simp add: setupDirectDbChangeDetection_def)
next
  case True
  have "watch_inv
      (w\<lparr>openStreams := openStreams w @ [nextHandle w], nextHandle := Suc (nextHandle w),
         directStream := Some (nextHandle w)\<rparr>)"
    using assms
    by (auto simp add: watch_inv_def list_all_iff less_Suc_eq split: option.splits)
  then show ?thesis using True
    by (simp add: setupDirectDbChangeDetection_def watch_collection_def)
qed

lemma watch_inv_step: "watch_inv w \<Longrightarrow> watch_inv (watch_step w e)"
  by (cases e)
    (simp_all add: on_stream_error_def on_stream_close_def reconnect_timer_fires_def
      watch_inv_close_stream watch_inv_setupStream Let_def split: list.split)

lemma watch_inv_foldl: "watch_inv w \<Longrightarrow> watch_inv (foldl watch_step w es)"
  by (induction es arbitrary: w) (simp_all add: watch_inv_step)

lemma watch_inv_run: "watch_inv (watch_run m d es)"
  unfolding watch_run_def startup_def
  by (intro watch_inv_foldl watch_inv_direct watch_inv_setupStream watch_inv_new) (simp add: new_watcher_def)

lemma distinct_subset_option:
  assumes "distinct xs" "list_all (\<lambda>h. c = Some h) xs"
  shows "length xs \<le> 1"
proof -
  have "set xs \<subseteq> set_option c"
    using assms(2) by (auto simp add: list_all_iff)
  then have "card (set xs) \<le> card (set_option c)"
    by (intro card_mono) simp_all
  also have "\<dots> \<le> 1"
    by (cases c) simp_all
  finally show ?thesis using assms(1) by (simp add: distinct_card)
qed

lemma watch_inv_watcher_open: "watch_inv w \<Longrightarrow> length (watcher_open w) \<le> 1"
proof -
  assume i: "watch_inv w"
  have "distinct (watcher_open w)"
    using i by (simp add: watch_inv_def watcher_open_def)
  moreover have "list_all (\<lambda>h. changeStream w = Some h) (watcher_open w)"
    using i by (auto simp add: watch_inv_def watcher_open_def list_all_iff split: option.splits)
  ultimately show ?thesis by (rule distinct_subset_option)
qed

lemma watch_inv_open_two: "watch_inv w \<Longrightarrow> length (openStreams w) \<le> 2"
proof -
  assume i: "watch_inv w"
  have "set (openStreams w) \<subseteq> set_option (changeStream w) \<union> set_option (directStream w)"
    using i by (auto simp add: watch_inv_def list_all_iff)
  then have "card (set (openStreams w)) \<le> card (set_option (changeStream w) \<union> set_option (directStream w))"
    by (intro card_mono) simp_all
  also have "\<dots> \<le> card (set_option (changeStream w)) + card (set_option (directStream w))"
    by (rule card_Un_le)
  also have "\<dots> \<le> 2"
    by (cases "changeStream w"; cases "directStream w") simp_all
  finally show ?thesis using i by (simp add: watch_inv_def distinct_card)
qed

lemma startup_both:
  "startup True True =
     \<lparr>changeStream = Some 0, isConnected = True, reconnectTimers = [], watcherStreams = [0],
      directStream = Some 1, openStreams = [0, 1], nextHandle = 2\<rparr>"
  by (simp add: startup_def setupStream_def setupDirectDbChangeDetection_def new_watcher_def
      watch_collection_def)

text \<open>
  C4, as stated, fails on the code. Once both set-up functions have run, the collection has
  two open subscriptions at the same time. When the one of \<open>setupDirectDbChangeDetection\<close>
  (stream 1) closes, no reconnect is scheduled, and nothing re-opens it later.
\<close>

theorem watcher_counterexample:
  "openStreams (startup True True) = [0, 1] \<and>
   reconnectTimers (watch_step (startup True True) (StreamClose 1)) = [] \<and>
   openStreams (watch_run True True [StreamClose 1, ReconnectTimerFires True]) = [0]"
  by (simp add: startup_both watch_run_def on_stream_close_def close_stream_def
      reconnect_timer_fires_def)

text \<open>
  C4 (amended). For every watched collection, each error or close event of a stream opened
  by \<open>setupModelChangeStream\<close> schedules exactly one reconnect timer, with the fixed delay of
  5000 ms; when the timer fires, the watcher subscribes again only if it is still not
  connected. At every moment at most one subscription opened by that watcher is active. The
  collection carries one more subscription, opened once by \<open>setupDirectDbChangeDetection\<close>;
  so at most two subscriptions are active on it.
\<close>

theorem watcher_reconnects:
  "(h \<in> set (watcherStreams w) \<longrightarrow>
      reconnectTimers (watch_step w (StreamError h)) = reconnectTimers w @ [5000] \<and>
      reconnectTimers (watch_step w (StreamClose h)) = reconnectTimers w @ [5000]) \<and>
   (isConnected w \<longrightarrow>
      openStreams (watch_step w (ReconnectTimerFires ok)) = openStreams w \<and>
      changeStream (watch_step w (ReconnectTimerFires ok)) = changeStream w) \<and>
   (\<not> isConnected w \<and> reconnectTimers w = delay # pending \<longrightarrow>
      watch_step w (ReconnectTimerFires ok) = setupStream ok (w\<lparr>reconnectTimers := pending\<rparr>)) \<and>
   length (watcher_open (watch_run model_ok direct_ok events)) \<le> 1 \<and>
   length (openStreams (watch_run model_ok direct_ok events)) \<le> 2"
proof (intro conjI impI)
  assume "h \<in> set (watcherStreams w)"
  then show "reconnectTimers (watch_step w (StreamError h)) = reconnectTimers w @ [5000]"
    and "reconnectTimers (watch_step w (StreamClose h)) = reconnectTimers w @ [5000]"
    by (simp_all add: on_stream_error_def on_stream_close_def schedule_reconnect_def
        close_stream_def)
next
  assume "isConnected w"
  then show "openStreams (watch_step w (ReconnectTimerFires ok)) = openStreams w"
    and "changeStream (watch_step w (ReconnectTimerFires ok)) = changeStream w"
    by (simp_all add: reconnect_timer_fires_def split: list.split)
next
  assume "\<not> isConnected w \<and> reconnectTimers w = delay # pending"
  then show "watch_step w (ReconnectTimerFires ok) = setupStream ok (w\<lparr>reconnectTimers := pending\<rparr>)"
    by (simp add: reconnect_timer_fires_def)
next
  show "length (watcher_open (watch_run model_ok direct_ok events)) \<le> 1"
    using watch_inv_run by (rule watch_inv_watcher_open)
next
  show "length (openStreams (watch_run model_ok direct_ok events)) \<le> 2"
    using watch_inv_run by (rule watch_inv_open_two)
qed

theorem watcher_reconnects_witness:
  "reconnectTimers (watch_step (startup True True) (StreamError 0)) = [5000] \<and>
   reconnectTimers (watch_step (startup True True) (StreamClose 0)) = [5000] \<and>
   openStreams (watch_step (startup True True) (ReconnectTimerFires True)) = [0, 1] \<and>
   watch_step (watch_step (startup True True) (StreamError 0)) (ReconnectTimerFires True) =
     setupStream True ((startup True True)\<lparr>isConnected := False\<rparr>) \<and>
   length (watcher_open (watch_run True True
      [StreamError 0, ReconnectTimerFires True, ReconnectTimerFires True])) \<le> 1"
proof -
  have h: "0 \<in> set (watcherStreams (startup True True))"
    "reconnectTimers (startup True True) = []" "isConnected (startup True True)"
    "openStreams (startup True True) = [0, 1]"
    by (simp_all add: startup_both)
  have e: "watch_step (startup True True) (StreamError 0) =
           (startup True True)\<lparr>isConnected := False, reconnectTimers := [5000]\<rparr>"
    by (simp add: startup_both on_stream_error_def schedule_reconnect_def)
  have g: "\<not> isConnected ((startup True True)\<lparr>isConnected := False, reconnectTimers := [5000]\<rparr>)"
    "reconnectTimers ((startup True True)\<lparr>isConnected := False, reconnectTimers := [5000]\<rparr>)
       = 5000 # []"
    "(startup True True)\<lparr>isConnected := False, reconnectTimers := [5000], reconnectTimers := []\<rparr>
       = (startup True True)\<lparr>isConnected := False\<rparr>"
    by (simp_all add: startup_both)
  show ?thesis
    using watcher_reconnects [of 0 "startup True True" True 0 "[]" True True
        "[StreamError 0, ReconnectTimerFires True, ReconnectTimerFires True]"]
      watcher_reconnects [of 0 "(startup True True)\<lparr>isConnected := False, reconnectTimers := [5000]\<rparr>"
        True 5000 "[]" True True "[]"] h g
    unfolding e by simp
qed

end
